theory Spec2Isabelle
  imports Complex_Main "HOL-Library.Finite_Map"
begin

section \<open>JavaScript values\<close>

text \<open>
  The validator and the orchestrator handle records typed \<open>any\<close>: a value is
  \<open>undefined\<close>, \<open>null\<close>, a boolean, a (finite) number, a string, an array or an
  object. An object is the list of its own properties in insertion order; a property
  whose value is \<open>undefined\<close> is a key of the object all the same.
\<close>

datatype jsval =
    JUndefined
  | JNull
  | JBool bool
  | JNum rat
  | JStr string
  | JArr "jsval list"
  | JObj "(string \<times> jsval) list"

text \<open>Truthiness, as \<open>!x\<close>, \<open>x && y\<close> and \<open>x || y\<close> test it.\<close>

fun truthy :: "jsval \<Rightarrow> bool" where
  "truthy JUndefined = False"
| "truthy JNull = False"
| "truthy (JBool b) = b"
| "truthy (JNum n) = (n \<noteq> 0)"
| "truthy (JStr s) = (s \<noteq> [])"
| "truthy (JArr xs) = True"
| "truthy (JObj kvs) = True"

text \<open>\<open>a || b\<close>: the first operand when it is truthy, the second otherwise.\<close>

definition js_or :: "jsval \<Rightarrow> jsval \<Rightarrow> jsval" where
  "js_or a b = (if truthy a then a else b)"

text \<open>
  \<open>v[key]\<close> for a value that is neither \<open>undefined\<close> nor \<open>null\<close>: an own property of
  an object, the \<open>length\<close> of a string or an array, \<open>undefined\<close> for any other name
  (the names used in this program are field names, never indices). On \<open>undefined\<close> and
  \<open>null\<close> JavaScript raises a TypeError; \<open>member\<close> below is the access that can raise.
\<close>

fun js_get :: "jsval \<Rightarrow> string \<Rightarrow> jsval" where
  "js_get (JObj kvs) k = (case map_of kvs k of Some v \<Rightarrow> v | None \<Rightarrow> JUndefined)"
| "js_get (JStr s) k = (if k = ''length'' then JNum (of_nat (length s)) else JUndefined)"
| "js_get (JArr xs) k = (if k = ''length'' then JNum (of_nat (length xs)) else JUndefined)"
| "js_get v k = JUndefined"

datatype js_error = TypeError string | Error string

fun nullish :: "jsval \<Rightarrow> bool" where
  "nullish JUndefined = True"
| "nullish JNull = True"
| "nullish v = False"

definition member :: "jsval \<Rightarrow> string \<Rightarrow> js_error + jsval" where
  "member v k =
     (if nullish v
      then Inl (TypeError (''Cannot read properties of ''
                  @ (if v = JNull then ''null'' else ''undefined'')
                  @ '' (reading '' @ [CHR 0x27] @ k @ [CHR 0x27] @ '')''))
      else Inr (js_get v k))"

definition error_message :: "js_error \<Rightarrow> string" where
  "error_message e = (case e of TypeError m \<Rightarrow> m | Error m \<Rightarrow> m)"

definition bind_err :: "'e + 'a \<Rightarrow> ('a \<Rightarrow> 'e + 'b) \<Rightarrow> 'e + 'b" where
  "bind_err m f = (case m of Inl e \<Rightarrow> Inl e | Inr x \<Rightarrow> f x)"

text \<open>
  \<open>Object.keys(v)\<close> of a value that is neither \<open>undefined\<close> nor \<open>null\<close>: the own
  keys of an object, the indices of an array or a string, nothing for a number or a
  boolean.
\<close>

fun object_keys :: "jsval \<Rightarrow> nat" where
  "object_keys (JObj kvs) = length (remdups (map fst kvs))"
| "object_keys (JArr xs) = length xs"
| "object_keys (JStr s) = length s"
| "object_keys v = 0"

text \<open>\<open>s.split(c)\<close> for a one-character separator: always at least one piece.\<close>

fun js_split :: "char \<Rightarrow> string \<Rightarrow> string list" where
  "js_split c [] = [[]]"
| "js_split c (x # xs) =
     (if x = c then [] # js_split c xs
      else (case js_split c xs of
              [] \<Rightarrow> [[x]]
            | p # ps \<Rightarrow> (x # p) # ps))"

text \<open>\<open>Math.round\<close>: the nearest integer, a half rounded up.\<close>

definition js_round :: "rat \<Rightarrow> int" where
  "js_round x = \<lfloor>x + 1 / 2\<rfloor>"

section \<open>Library behaviour taken as a parameter\<close>

text \<open>
  What the program leaves to its libraries and to the JavaScript engine is a parameter
  of the model: the regular expression behind zod's \<open>.email()\<close> and the URL parser
  behind \<open>.url()\<close>, the conversions \<open>String(v)\<close> (of a value that is not a string) and
  \<open>Number(v)\<close> (of a value that is not a number; \<open>None\<close> is NaN), and \<open>JSON.parse\<close>
  (\<open>None\<close> is a SyntaxError), and \<open>toISOString\<close> of a Date, which is kept as its
  time in milliseconds.
\<close>

record host =
  zod_email :: "string \<Rightarrow> bool"
  zod_url :: "string \<Rightarrow> bool"
  String_conv :: "jsval \<Rightarrow> string"
  Number_conv :: "jsval \<Rightarrow> rat option"
  JSON_parse :: "string \<Rightarrow> jsval option"
  toISOString :: "int \<Rightarrow> string"

definition to_string :: "host \<Rightarrow> jsval \<Rightarrow> string" where
  "to_string h v = (case v of JStr s \<Rightarrow> s | _ \<Rightarrow> String_conv h v)"

definition to_number :: "host \<Rightarrow> jsval \<Rightarrow> rat option" where
  "to_number h v = (case v of JNum n \<Rightarrow> Some n | JUndefined \<Rightarrow> None | _ \<Rightarrow> Number_conv h v)"

text \<open>\<open>v < n\<close> and \<open>v > n\<close> against a numeric literal: false when \<open>v\<close> converts to NaN.\<close>

definition js_lt :: "host \<Rightarrow> jsval \<Rightarrow> rat \<Rightarrow> bool" where
  "js_lt h v n = (case to_number h v of Some x \<Rightarrow> x < n | None \<Rightarrow> False)"

definition js_gt :: "host \<Rightarrow> jsval \<Rightarrow> rat \<Rightarrow> bool" where
  "js_gt h v n = (case to_number h v of Some x \<Rightarrow> n < x | None \<Rightarrow> False)"

section \<open>The validator's completeness score\<close>

text \<open>
  \<open>hasField\<close> folds the reducer over the segments of the path, starting from the
  record. The reducer returns \<open>current\<close> itself when it is falsy and a boolean
  otherwise; the result of the fold is compared with \<open>undefined\<close>.
\<close>

definition hasField_step :: "jsval \<Rightarrow> string \<Rightarrow> jsval" where
  "hasField_step current key =
     (if truthy current
      then JBool (js_get current key \<noteq> JUndefined \<and> js_get current key \<noteq> JNull
                  \<and> js_get current key \<noteq> JStr [])
      else current)"

definition hasField :: "jsval \<Rightarrow> string \<Rightarrow> bool" where
  "hasField obj path = (foldl hasField_step obj (js_split CHR ''.'' path) \<noteq> JUndefined)"

definition requiredFields :: "string list" where
  "requiredFields =
     [''name'', ''address.city'', ''address.state'', ''address.country'',
      ''cuisineTypes'', ''contactInfo'', ''ratings'', ''operatingHours'',
      ''priceRange'', ''amenities'', ''dataSources'']"

definition optionalFields :: "string list" where
  "optionalFields =
     [''address.street'', ''address.postalCode'', ''address.coordinates'',
      ''contactInfo.phone'', ''contactInfo.email'', ''contactInfo.website'',
      ''ratings.average'', ''ratings.total'']"

text \<open>
  The two loops count the fields that \<open>hasField\<close> accepts. The score is
  \<open>Math.round((requiredScore / 11) * 70 + (optionalScore / 8) * 30)\<close>; the quotients
  are taken exactly (the sum is a multiple of 1/88, and it is a half-integer only at
  7.5 and 77.5, which floating point represents exactly).
\<close>

definition calculateCompleteness :: "jsval \<Rightarrow> int" where
  "calculateCompleteness data =
     (let requiredScore = length (filter (hasField data) requiredFields);
          optionalScore = length (filter (hasField data) optionalFields);
          requiredPercentage = (of_nat requiredScore / of_nat (length requiredFields)) * 70;
          optionalPercentage = (of_nat optionalScore / of_nat (length optionalFields)) * 30
      in js_round (requiredPercentage + optionalPercentage))"

section \<open>Schema parsing\<close>

text \<open>
  The schemas are built with the zod library, which is not part of the repository.
  Its parser is modelled here for the combinators the validator uses: a parse visits
  the value along the schema, collects one issue per violation (in schema order) and
  ends valid, dirty (a check failed on a value of the right type) or aborted (wrong
  type). \<open>parse\<close> raises a ZodError carrying the issues unless there is none.
\<close>

datatype path_seg = Key string | Idx nat

datatype zod_type =
  TUndefined | TNull | TBoolean | TNumber | TString | TArray | TObject

fun getParsedType :: "jsval \<Rightarrow> zod_type" where
  "getParsedType JUndefined = TUndefined"
| "getParsedType JNull = TNull"
| "getParsedType (JBool b) = TBoolean"
| "getParsedType (JNum n) = TNumber"
| "getParsedType (JStr s) = TString"
| "getParsedType (JArr xs) = TArray"
| "getParsedType (JObj kvs) = TObject"

fun zod_type_name :: "zod_type \<Rightarrow> string" where
  "zod_type_name TUndefined = ''undefined''"
| "zod_type_name TNull = ''null''"
| "zod_type_name TBoolean = ''boolean''"
| "zod_type_name TNumber = ''number''"
| "zod_type_name TString = ''string''"
| "zod_type_name TArray = ''array''"
| "zod_type_name TObject = ''object''"

datatype issue_code =
    invalid_type string zod_type
  | invalid_enum_value "string list" string
  | too_small
  | too_big
  | invalid_string
  | invalid_union

record issue =
  path :: "path_seg list"
  code :: issue_code
  message :: string

definition digit_char :: "nat \<Rightarrow> char" where
  "digit_char d = char_of (48 + d)"

fun show_nat :: "nat \<Rightarrow> string" where
  "show_nat n = (if n < 10 then [digit_char n] else show_nat (n div 10) @ [digit_char (n mod 10)])"

declare show_nat.simps [simp del]

text \<open>\<open>xs.join(sep)\<close>.\<close>

fun js_join :: "string \<Rightarrow> string list \<Rightarrow> string" where
  "js_join sep [] = []"
| "js_join sep [x] = x"
| "js_join sep (x # y # ys) = x @ sep @ js_join sep (y # ys)"

definition joinValues :: "string list \<Rightarrow> string" where
  "joinValues vals = js_join '' | '' (map (\<lambda>v. [CHR 0x27] @ v @ [CHR 0x27]) vals)"

text \<open>The messages of zod's default error map.\<close>

definition msg_invalid_type :: "string \<Rightarrow> zod_type \<Rightarrow> string" where
  "msg_invalid_type expected received =
     (if received = TUndefined then ''Required''
      else ''Expected '' @ expected @ '', received '' @ zod_type_name received)"

definition mk_invalid_type :: "path_seg list \<Rightarrow> string \<Rightarrow> jsval \<Rightarrow> issue" where
  "mk_invalid_type p expected v =
     \<lparr>path = p, code = invalid_type expected (getParsedType v),
      message = msg_invalid_type expected (getParsedType v)\<rparr>"

datatype strfmt = Email | Url

datatype schema =
    ZString "nat option" "strfmt option"
  | ZNumber "nat option" "nat option"
  | ZBoolean
  | ZEnum "string list"
  | ZArray schema "nat option"
  | ZObject "(string \<times> schema) list"
  | ZRecord schema
  | ZUnion "schema list"
  | ZOptional schema

datatype parse_status = Valid | Dirty | Aborted

type_synonym parse_return = "parse_status \<times> jsval \<times> issue list"

definition p_status :: "parse_return \<Rightarrow> parse_status" where
  "p_status r = fst r"

definition p_value :: "parse_return \<Rightarrow> jsval" where
  "p_value r = fst (snd r)"

definition p_issues :: "parse_return \<Rightarrow> issue list" where
  "p_issues r = snd (snd r)"

text \<open>
  The status of an array or object built from parsed parts: aborted as soon as one part
  is, dirty when a part (or a check on the whole) is dirty.
\<close>

definition merge_status :: "parse_status \<Rightarrow> parse_status list \<Rightarrow> parse_status" where
  "merge_status own parts =
     (if Aborted \<in> set parts then Aborted
      else if own = Dirty \<or> Dirty \<in> set parts then Dirty
      else Valid)"

definition string_checks :: "host \<Rightarrow> nat option \<Rightarrow> strfmt option \<Rightarrow> path_seg list \<Rightarrow> string \<Rightarrow> issue list" where
  "string_checks lib mn fmt p s =
     (case mn of
        None \<Rightarrow> []
      | Some m \<Rightarrow>
          if length s < m
          then [\<lparr>path = p, code = too_small,
                 message = ''String must contain at least '' @ show_nat m @ '' character(s)''\<rparr>]
          else [])
     @ (case fmt of
          None \<Rightarrow> []
        | Some Email \<Rightarrow>
            if zod_email lib s then []
            else [\<lparr>path = p, code = invalid_string, message = ''Invalid email''\<rparr>]
        | Some Url \<Rightarrow>
            if zod_url lib s then []
            else [\<lparr>path = p, code = invalid_string, message = ''Invalid url''\<rparr>])"

definition number_checks :: "nat option \<Rightarrow> nat option \<Rightarrow> path_seg list \<Rightarrow> rat \<Rightarrow> issue list" where
  "number_checks mn mx p n =
     (case mn of
        None \<Rightarrow> []
      | Some m \<Rightarrow>
          if n < of_nat m
          then [\<lparr>path = p, code = too_small,
                 message = ''Number must be greater than or equal to '' @ show_nat m\<rparr>]
          else [])
     @ (case mx of
          None \<Rightarrow> []
        | Some m \<Rightarrow>
            if of_nat m < n
            then [\<lparr>path = p, code = too_big,
                   message = ''Number must be less than or equal to '' @ show_nat m\<rparr>]
            else [])"

definition array_checks :: "nat option \<Rightarrow> path_seg list \<Rightarrow> jsval list \<Rightarrow> issue list" where
  "array_checks mn p xs =
     (case mn of
        None \<Rightarrow> []
      | Some m \<Rightarrow>
          if length xs < m
          then [\<lparr>path = p, code = too_small,
                 message = ''Array must contain at least '' @ show_nat m @ '' element(s)''\<rparr>]
          else [])"

definition checked :: "jsval \<Rightarrow> issue list \<Rightarrow> parse_return" where
  "checked v is = (if is = [] then Valid else Dirty, v, is)"

text \<open>
  A union returns the first option that parses valid, else the first dirty one with
  its issues, else one \<open>invalid_union\<close> issue (the options' own issues travel inside
  it and are not read by the validator).
\<close>

definition union_result :: "path_seg list \<Rightarrow> parse_return list \<Rightarrow> parse_return" where
  "union_result p rs =
     (case filter (\<lambda>r. p_status r = Valid) rs of
        r # _ \<Rightarrow> r
      | [] \<Rightarrow>
         (case filter (\<lambda>r. p_status r = Dirty) rs of
            r # _ \<Rightarrow> r
          | [] \<Rightarrow> (Aborted, JUndefined,
                   [\<lparr>path = p, code = invalid_union, message = ''Invalid input''\<rparr>])))"

text \<open>
  An object keeps the keys of its shape only (unknown keys are stripped): a key is
  written to the output when the input has it or its parsed value is defined.
\<close>

definition object_result :: "(string \<times> jsval) list \<Rightarrow> (string \<times> parse_return) list \<Rightarrow> parse_return" where
  "object_result kvs rs =
     (merge_status Valid (map (\<lambda>kr. p_status (snd kr)) rs),
      JObj (map (\<lambda>kr. (fst kr, p_value (snd kr)))
             (filter (\<lambda>kr. fst kr \<in> set (map fst kvs) \<or> p_value (snd kr) \<noteq> JUndefined) rs)),
      concat (map (\<lambda>kr. p_issues (snd kr)) rs))"

fun zparse :: "host \<Rightarrow> schema \<Rightarrow> path_seg list \<Rightarrow> jsval \<Rightarrow> parse_return" where
  "zparse lib (ZString mn fmt) p v =
     (case v of
        JStr s \<Rightarrow> checked v (string_checks lib mn fmt p s)
      | _ \<Rightarrow> (Aborted, JUndefined, [mk_invalid_type p ''string'' v]))"
| "zparse lib (ZNumber mn mx) p v =
     (case v of
        JNum n \<Rightarrow> checked v (number_checks mn mx p n)
      | _ \<Rightarrow> (Aborted, JUndefined, [mk_invalid_type p ''number'' v]))"
| "zparse lib ZBoolean p v =
     (case v of
        JBool b \<Rightarrow> (Valid, v, [])
      | _ \<Rightarrow> (Aborted, JUndefined, [mk_invalid_type p ''boolean'' v]))"
| "zparse lib (ZEnum vals) p v =
     (case v of
        JStr s \<Rightarrow>
          if s \<in> set vals then (Valid, v, [])
          else (Aborted, JUndefined,
                [\<lparr>path = p, code = invalid_enum_value vals s,
                  message = ''Invalid enum value. Expected '' @ joinValues vals
                            @ '', received '' @ [CHR 0x27] @ s @ [CHR 0x27]\<rparr>])
      | _ \<Rightarrow> (Aborted, JUndefined, [mk_invalid_type p (joinValues vals) v]))"
| "zparse lib (ZOptional s) p v =
     (if v = JUndefined then (Valid, JUndefined, []) else zparse lib s p v)"
| "zparse lib (ZArray s mn) p v =
     (case v of
        JArr xs \<Rightarrow>
          (let own = array_checks mn p xs;
               rs = map (\<lambda>ix. zparse lib s (p @ [Idx (fst ix)]) (snd ix)) (enumerate 0 xs)
           in (merge_status (if own = [] then Valid else Dirty) (map p_status rs),
               JArr (map p_value rs),
               own @ concat (map p_issues rs)))
      | _ \<Rightarrow> (Aborted, JUndefined, [mk_invalid_type p ''array'' v]))"
| "zparse lib (ZObject shape) p v =
     (case v of
        JObj kvs \<Rightarrow>
          object_result kvs
            (map (\<lambda>ks. (fst ks, zparse lib (snd ks) (p @ [Key (fst ks)]) (js_get v (fst ks)))) shape)
      | _ \<Rightarrow> (Aborted, JUndefined, [mk_invalid_type p ''object'' v]))"
| "zparse lib (ZRecord s) p v =
     (case v of
        JObj kvs \<Rightarrow>
          object_result kvs
            (map (\<lambda>kx. (fst kx, zparse lib s (p @ [Key (fst kx)]) (snd kx))) kvs)
      | _ \<Rightarrow> (Aborted, JUndefined, [mk_invalid_type p ''object'' v]))"
| "zparse lib (ZUnion opts) p v =
     union_result p (map (\<lambda>s. zparse lib s p v) opts)"

text \<open>
  \<open>schema.parse(data)\<close>: the parsed value when the parse ends valid, else a ZodError
  with the issues collected.
\<close>

definition zod_parse :: "host \<Rightarrow> schema \<Rightarrow> jsval \<Rightarrow> issue list + jsval" where
  "zod_parse lib sch v =
     (let r = zparse lib sch [] v
      in if p_status r = Valid then Inr (p_value r) else Inl (p_issues r))"

text \<open>
  \<open>deepPartial\<close> makes every field of every nested object optional; it goes through
  arrays and optionals, and leaves records, unions and leaves as they are.
\<close>

fun deepPartial :: "schema \<Rightarrow> schema" where
  "deepPartial (ZObject shape) =
     ZObject (map (\<lambda>ks. (fst ks, ZOptional (deepPartial (snd ks)))) shape)"
| "deepPartial (ZArray s mn) = ZArray (deepPartial s) mn"
| "deepPartial (ZOptional s) = ZOptional (deepPartial s)"
| "deepPartial s = s"

section \<open>The canonical schema\<close>

definition addressSchema :: schema where
  "addressSchema = ZObject
     [(''street'', ZOptional (ZString None None)),
      (''city'', ZString (Some 1) None),
      (''state'', ZString (Some 1) None),
      (''postalCode'', ZOptional (ZString None None)),
      (''country'', ZString (Some 1) None),
      (''coordinates'', ZOptional (ZObject
         [(''lat'', ZNumber None None), (''lng'', ZNumber None None)]))]"

definition contactInfoSchema :: schema where
  "contactInfoSchema = ZObject
     [(''phone'', ZOptional (ZString None None)),
      (''email'', ZOptional (ZString None (Some Email))),
      (''website'', ZOptional (ZString None (Some Url)))]"

definition ratingsSchema :: schema where
  "ratingsSchema = ZObject
     [(''average'', ZOptional (ZNumber (Some 0) (Some 5))),
      (''total'', ZOptional (ZNumber (Some 0) None)),
      (''sources'', ZRecord (ZObject
         [(''rating'', ZNumber (Some 0) (Some 5)), (''count'', ZNumber (Some 0) None)]))]"

definition operatingHoursSchema :: schema where
  "operatingHoursSchema = ZRecord (ZUnion
     [ZObject [(''open'', ZString None None), (''close'', ZString None None)],
      ZObject [(''closed'', ZBoolean)]])"

definition restaurantDataSchema :: schema where
  "restaurantDataSchema = ZObject
     [(''restaurantId'', ZOptional (ZString None None)),
      (''name'', ZString (Some 1) None),
      (''address'', addressSchema),
      (''cuisineTypes'', ZArray (ZString None None) (Some 1)),
      (''contactInfo'', contactInfoSchema),
      (''ratings'', ratingsSchema),
      (''operatingHours'', operatingHoursSchema),
      (''priceRange'', ZEnum [''budget'', ''mid-range'', ''fine-dining'', ''luxury'']),
      (''amenities'', ZArray (ZString None None) None),
      (''dataSources'', ZArray (ZObject
         [(''source'', ZString None None),
          (''url'', ZOptional (ZString None None)),
          (''extractedAt'', ZString None None),
          (''reliability'', ZNumber (Some 0) (Some 1))]) None)]"

section \<open>The validator\<close>

text \<open>The classes \<open>\s\<close> and \<open>\d\<close> of a regular expression, on one-byte characters.\<close>

definition js_space :: "char \<Rightarrow> bool" where
  "js_space c = (of_char c \<in> {9, 10, 11, 12, 13, 32, 160 :: nat})"

definition is_digit :: "char \<Rightarrow> bool" where
  "is_digit c = (48 \<le> (of_char c :: nat) \<and> (of_char c :: nat) \<le> 57)"

text \<open>\<open>[6-9]\d{9}\<close> matching a whole string.\<close>

definition ten_digits :: "string \<Rightarrow> bool" where
  "ten_digits t =
     (case t of
        [] \<Rightarrow> False
      | c # cs \<Rightarrow> c \<in> set ''6789'' \<and> length cs = 9 \<and> list_all is_digit cs)"

text \<open>
  \<open>/^(\+91|0)?[6-9]\d{9}$/.test(phone.replace(/[\s-]/g, ''))\<close>. A truthy value that is
  not a string has no \<open>replace\<close> method.
\<close>

definition isValidPhoneNumber :: "jsval \<Rightarrow> js_error + bool" where
  "isValidPhoneNumber phone =
     (case phone of
        JStr s \<Rightarrow>
          (let t = filter (\<lambda>c. \<not> (js_space c \<or> c = CHR ''-'')) s
           in Inr (ten_digits t \<or> (take 3 t = ''+91'' \<and> ten_digits (drop 3 t))
                   \<or> (take 1 t = ''0'' \<and> ten_digits (drop 1 t))))
      | _ \<Rightarrow> Inl (TypeError ''phone.replace is not a function''))"

text \<open>
  \<open>/^[^\s@]+@[^\s@]+\.[^\s@]+$/.test(email)\<close>: no white space, exactly one \<open>@\<close> with
  something before it, and after it a dot that is neither first nor last.
\<close>

definition emailRegex :: "string \<Rightarrow> bool" where
  "emailRegex s =
     (\<not> list_ex js_space s \<and>
      (case js_split CHR ''@'' s of
         [l, d] \<Rightarrow> l \<noteq> [] \<and> CHR ''.'' \<in> set (butlast (tl d))
       | _ \<Rightarrow> False))"

definition isValidEmail :: "host \<Rightarrow> jsval \<Rightarrow> bool" where
  "isValidEmail h email = emailRegex (to_string h email)"

text \<open>
  \<open>phone.replace(/[\s-+]/g, '')\<close>, then \<open>startsWith('91')\<close> or a match of
  \<open>/^[6-9]\d{9}$/\<close>.
\<close>

definition isIndianPhoneNumber :: "jsval \<Rightarrow> js_error + bool" where
  "isIndianPhoneNumber phone =
     (case phone of
        JStr s \<Rightarrow>
          (let cleanPhone = filter (\<lambda>c. \<not> (js_space c \<or> c = CHR ''-'' \<or> c = CHR ''+'')) s
           in Inr (take 2 cleanPhone = ''91'' \<or> ten_digits cleanPhone))
      | _ \<Rightarrow> Inl (TypeError ''phone.replace is not a function''))"

text \<open>
  The accuracy score starts at 100 and loses a fixed penalty per defect; every property
  read that raises on \<open>undefined\<close> in the source raises here.
\<close>

definition penalty :: "bool \<Rightarrow> int \<Rightarrow> int" where
  "penalty defect p = (if defect then p else 0)"

definition calculateAccuracy :: "host \<Rightarrow> jsval \<Rightarrow> js_error + int" where
  "calculateAccuracy h data =
     bind_err (member data ''name'') (\<lambda>name.
     bind_err (member data ''address'') (\<lambda>address.
     bind_err (member data ''contactInfo'') (\<lambda>contactInfo.
     bind_err (member contactInfo ''phone'') (\<lambda>phone.
     bind_err (if truthy phone then isValidPhoneNumber phone else Inr True) (\<lambda>phoneOk.
     bind_err (member contactInfo ''email'') (\<lambda>email.
     bind_err (member data ''cuisineTypes'') (\<lambda>cuisineTypes.
     bind_err (member data ''ratings'') (\<lambda>ratings.
     bind_err (member ratings ''average'') (\<lambda>average.
     bind_err (member data ''operatingHours'') (\<lambda>operatingHours.
       (let accuracyScore = 100
              - penalty (\<not> truthy name \<or> js_lt h (js_get name ''length'') 2) 10
              - penalty (\<not> truthy address \<or> \<not> truthy (js_get address ''city'')
                         \<or> \<not> truthy (js_get address ''state'')) 15
              - penalty (truthy phone \<and> \<not> phoneOk) 5
              - penalty (truthy email \<and> \<not> isValidEmail h email) 5
              - penalty (\<not> truthy cuisineTypes
                         \<or> js_get cuisineTypes ''length'' = JNum 0) 10
              - penalty (truthy average \<and> (js_lt h average 0 \<or> js_gt h average 5)) 5
              - penalty (\<not> truthy operatingHours \<or> object_keys operatingHours = 0) 10
        in Inr (max 0 (min 100 accuracyScore)))))))))))))"

definition generateWarnings :: "host \<Rightarrow> jsval \<Rightarrow> js_error + string list" where
  "generateWarnings h data =
     bind_err (member data ''name'') (\<lambda>name.
     bind_err (member data ''cuisineTypes'') (\<lambda>cuisineTypes.
     bind_err (member data ''contactInfo'') (\<lambda>contactInfo.
     bind_err (member contactInfo ''phone'') (\<lambda>phone.
     bind_err (if truthy phone then isIndianPhoneNumber phone else Inr True) (\<lambda>indian.
     bind_err (member data ''address'') (\<lambda>address.
     bind_err (member address ''coordinates'') (\<lambda>coordinates.
     bind_err (member data ''ratings'') (\<lambda>ratings.
     bind_err (member ratings ''average'') (\<lambda>average.
     bind_err (member ratings ''total'') (\<lambda>total.
       Inr ((if truthy name \<and> js_gt h (js_get name ''length'') 100
             then [''Restaurant name is unusually long''] else [])
          @ (if truthy cuisineTypes \<and> js_gt h (js_get cuisineTypes ''length'') 10
             then [''Too many cuisine types specified''] else [])
          @ (if truthy phone \<and> \<not> indian
             then [''Phone number may not be Indian format''] else [])
          @ (if \<not> truthy coordinates
             then [''Missing geographical coordinates''] else [])
          @ (if truthy average \<and> \<not> truthy total
             then [''Average rating provided without total count''] else []))))))))))))"

text \<open>\<open>err.path.join('.')\<close>: keys as they are, indices in decimal.\<close>

definition path_string :: "path_seg list \<Rightarrow> string" where
  "path_string p = js_join ''.'' (map (\<lambda>seg. case seg of Key k \<Rightarrow> k | Idx i \<Rightarrow> show_nat i) p)"

definition format_issue :: "issue \<Rightarrow> string" where
  "format_issue err = path_string (path err) @ '': '' @ message err"

definition is_missing :: "issue \<Rightarrow> bool" where
  "is_missing err = (case code err of invalid_type expected received \<Rightarrow> received = TUndefined | _ \<Rightarrow> False)"

definition extractMissingFields :: "issue list \<Rightarrow> string list" where
  "extractMissingFields errs = map (\<lambda>err. path_string (path err)) (filter is_missing errs)"

record ValidationResult =
  isValid :: bool
  validatedData :: "jsval option"
  errors :: "string list"
  completeness :: int
  accuracy :: int
  missingFields :: "string list"
  warnings :: "string list"

definition initial_result :: ValidationResult where
  "initial_result =
     \<lparr>isValid = False, validatedData = None, errors = [], completeness = 0, accuracy = 0,
      missingFields = [], warnings = []\<rparr>"

text \<open>
  What the \<open>try\<close> block of \<open>validateRestaurantData\<close> can throw: the ZodError of
  \<open>parse\<close>, or an error of the score functions. The block assigns to \<open>result\<close> as it
  goes, so it returns the result reached together with what was thrown, if anything.
\<close>

datatype thrown = ZodError "issue list" | Thrown js_error

definition validate_try :: "host \<Rightarrow> jsval \<Rightarrow> ValidationResult \<Rightarrow> ValidationResult \<times> thrown option" where
  "validate_try h data result =
     (case zod_parse h restaurantDataSchema data of
        Inl issues \<Rightarrow> (result, Some (ZodError issues))
      | Inr parsed \<Rightarrow>
          (let r1 = result\<lparr>isValid := True, validatedData := Some parsed\<rparr>;
               r2 = r1\<lparr>completeness := calculateCompleteness parsed\<rparr>
           in case calculateAccuracy h parsed of
                Inl e \<Rightarrow> (r2, Some (Thrown e))
              | Inr acc \<Rightarrow>
                 (case generateWarnings h parsed of
                    Inl e \<Rightarrow> (r2\<lparr>accuracy := acc\<rparr>, Some (Thrown e))
                  | Inr ws \<Rightarrow> (r2\<lparr>accuracy := acc, warnings := ws\<rparr>, None))))"

text \<open>
  The inner \<open>try\<close>: the completeness of the record parsed against the all-optional
  schema, 0 when that parse fails too.
\<close>

definition partial_completeness :: "host \<Rightarrow> jsval \<Rightarrow> int" where
  "partial_completeness h data =
     (case zod_parse h (deepPartial restaurantDataSchema) data of
        Inr partialData \<Rightarrow> calculateCompleteness partialData
      | Inl issues \<Rightarrow> 0)"

text \<open>
  \<open>validateRestaurantData\<close> returns the result, or the error it lets escape. The
  \<open>catch\<close> takes everything the block throws: a ZodError fills the errors, the missing
  fields and the best-effort completeness; any other error leaves its message as the
  only error.
\<close>

definition validateRestaurantData :: "host \<Rightarrow> jsval \<Rightarrow> js_error + ValidationResult" where
  "validateRestaurantData h data =
     (case validate_try h data initial_result of
        (result, None) \<Rightarrow> Inr result
      | (result, Some (ZodError issues)) \<Rightarrow>
          Inr (result\<lparr>errors := map format_issue issues,
                      missingFields := extractMissingFields issues,
                      completeness := partial_completeness h data\<rparr>)
      | (result, Some (Thrown e)) \<Rightarrow> Inr (result\<lparr>errors := [error_message e]\<rparr>))"

section \<open>Storage and the agent registry\<close>

text \<open>
  The state of the process: the maps of the in-memory storage (the map of data sources,
  which no function below reads, is left out), its aggregate metrics, the agent
  handles of the registry in insertion order, the counters of the Gemini service, and
  how many identifiers and clock readings have been drawn so far. A stored row is the
  list of its properties; a Date is its time in milliseconds. A metric that is a
  quotient is \<open>None\<close> when the division does not give a finite number.
\<close>

type_synonym jsobj = "(string \<times> jsval) list"

record SystemMetrics =
  metricsId :: string
  totalRestaurants :: int
  activeAgents :: int
  processingRate :: int
  successRate :: string
  updatedAt :: int

record AgentMetrics =
  requestsToday :: int
  agentSuccessRate :: "rat option"
  avgResponseTime :: "rat option"
  totalProcessed :: int
  errorCount :: int
  lastError :: "string option"

record BaseAgent =
  agent_id :: string
  agent_name :: string
  agent_type :: string
  metrics :: AgentMetrics
  status :: string

record GeminiService =
  requestCount :: int
  successCount :: int
  totalResponseTime :: int

record world =
  restaurants :: "(string, jsobj) fmap"
  agents :: "(string, jsobj) fmap"
  processingQueue :: "(string, jsobj) fmap"
  extractionLogs :: "(string, jsobj) fmap"
  systemMetrics :: SystemMetrics
  registry :: "BaseAgent list"
  gemini :: GeminiService
  uuid_calls :: nat
  clock_calls :: nat

text \<open>
  The cheerio document of a page, as the selectors the program uses see it:
  \<open>first_text sel\<close> is the text of \<open>$(sel).first()\<close> (\<open>None\<close> when nothing matches),
  \<open>first_attr sel a\<close> its attribute, \<open>first_html sel\<close> its inner HTML, \<open>all_text sel\<close> the
  text of \<open>$(sel)\<close>, and \<open>html\<close> the whole document.
\<close>

record page =
  first_text :: "string \<Rightarrow> string option"
  first_attr :: "string \<Rightarrow> string \<Rightarrow> string option"
  first_html :: "string \<Rightarrow> string option"
  all_text :: "string \<Rightarrow> string"
  html :: string

datatype axios_error = AxiosError string | OtherError string

text \<open>
  The surroundings of the process: the library behaviour, the identifiers and clock
  readings in the order they are drawn, the HTTP client, the HTML parser, the
  \<open>generateContent\<close> call of the Gemini SDK (for the method that makes it and its
  request, the text of the answer or the error thrown; the prompt and the
  configuration sent are fixed by the two), the message of the SyntaxError that
  \<open>JSON.parse\<close> throws on a text, the rounding of an exact number to the nearest
  double, and the extraction steps of the field extractor that are not modelled further
  (regular-expression searches over the page).
\<close>

record env =
  lib :: host
  randomUUID :: "nat \<Rightarrow> string"
  Date_now :: "nat \<Rightarrow> int"
  axios_get :: "string \<Rightarrow> axios_error + string"
  cheerio_load :: "string \<Rightarrow> page"
  generateContent :: "string \<Rightarrow> jsval \<Rightarrow> js_error + jsval"
  JSON_error_message :: "string \<Rightarrow> string"
  to_double :: "rat \<Rightarrow> rat"
  parseIndianAddress :: "string \<Rightarrow> jsval"
  extractContactInfo :: "page \<Rightarrow> jsval"
  extractRatings :: "page \<Rightarrow> jsval"
  extractOperatingHours :: "page \<Rightarrow> jsval"
  extractPriceRange :: "page \<Rightarrow> jsval"
  extractAmenities :: "page \<Rightarrow> jsval"

definition next_uuid :: "env \<Rightarrow> world \<Rightarrow> string \<times> world" where
  "next_uuid e w = (randomUUID e (uuid_calls w), w\<lparr>uuid_calls := uuid_calls w + 1\<rparr>)"

definition new_Date :: "env \<Rightarrow> world \<Rightarrow> int \<times> world" where
  "new_Date e w = (Date_now e (clock_calls w), w\<lparr>clock_calls := clock_calls w + 1\<rparr>)"

text \<open>
  \<open>{...base, k1: v1, ...}\<close>: a key that \<open>base\<close> has keeps its place and takes the new
  value, a new key goes to the end. Spreading an array or a string gives its elements
  or characters under their indices; spreading any other value that is not an object
  adds nothing.
\<close>

fun obj_set :: "string \<Rightarrow> jsval \<Rightarrow> jsobj \<Rightarrow> jsobj" where
  "obj_set k v [] = [(k, v)]"
| "obj_set k v (kv # kvs) = (if fst kv = k then (k, v) # kvs else kv # obj_set k v kvs)"

definition obj_assign :: "jsobj \<Rightarrow> jsobj \<Rightarrow> jsobj" where
  "obj_assign base props = foldl (\<lambda>acc kv. obj_set (fst kv) (snd kv) acc) base props"

definition js_spread :: "jsval \<Rightarrow> jsobj" where
  "js_spread v =
     (case v of
        JObj kvs \<Rightarrow> kvs
      | JArr xs \<Rightarrow> map (\<lambda>ix. (show_nat (fst ix), snd ix)) (enumerate 0 xs)
      | JStr cs \<Rightarrow> map (\<lambda>ic. (show_nat (fst ic), JStr [snd ic])) (enumerate 0 cs)
      | _ \<Rightarrow> [])"

definition Map_size :: "(string, jsobj) fmap \<Rightarrow> int" where
  "Map_size m = int (fcard (fmdom m))"

subsection \<open>MemStorage\<close>

definition createRestaurant :: "env \<Rightarrow> jsobj \<Rightarrow> world \<Rightarrow> jsobj \<times> world" where
  "createRestaurant e restaurant w =
     (let (uid, w1) = next_uuid e w;
          (now, w2) = new_Date e w1;
          newRestaurant = obj_assign restaurant
            [(''id'', JStr uid),
             (''description'', js_or (js_get (JObj restaurant) ''description'') JNull),
             (''website'', js_or (js_get (JObj restaurant) ''website'') JNull),
             (''cuisineTypes'', js_or (js_get (JObj restaurant) ''cuisineTypes'') (JArr [])),
             (''amenities'', js_or (js_get (JObj restaurant) ''amenities'') (JArr [])),
             (''extractedAt'', JNum (of_int now)),
             (''validatedAt'', JNull)];
          stored = fmupd uid newRestaurant (restaurants w2)
      in (newRestaurant,
          w2\<lparr>restaurants := stored,
             systemMetrics := (systemMetrics w2)\<lparr>totalRestaurants := Map_size stored\<rparr>\<rparr>))"

definition deleteRestaurant :: "string \<Rightarrow> world \<Rightarrow> world" where
  "deleteRestaurant uid w =
     (let stored = fmdrop uid (restaurants w)
      in w\<lparr>restaurants := stored,
            systemMetrics := (systemMetrics w)\<lparr>totalRestaurants := Map_size stored\<rparr>\<rparr>)"

definition is_active :: "jsobj \<Rightarrow> bool" where
  "is_active agent =
     (js_get (JObj agent) ''status'' = JStr ''active''
      \<or> js_get (JObj agent) ''status'' = JStr ''processing'')"

definition updateActiveAgentsCount :: "world \<Rightarrow> world" where
  "updateActiveAgentsCount w =
     w\<lparr>systemMetrics := (systemMetrics w)
         \<lparr>activeAgents := int (fcard (fmdom (fmfilter
              (\<lambda>k. case fmlookup (agents w) k of Some a \<Rightarrow> is_active a | None \<Rightarrow> False)
              (agents w))))\<rparr>\<rparr>"

definition updateAgentStatus :: "env \<Rightarrow> string \<Rightarrow> string \<Rightarrow> world \<Rightarrow> world" where
  "updateAgentStatus e uid st w =
     (case fmlookup (agents w) uid of
        None \<Rightarrow> w
      | Some agent \<Rightarrow>
          (let (now, w1) = new_Date e w;
               agent' = obj_set ''lastActivity'' (JNum (of_int now))
                          (obj_set ''status'' (JStr st) agent)
           in updateActiveAgentsCount (w1\<lparr>agents := fmupd uid agent' (agents w1)\<rparr>)))"

definition addToQueue :: "env \<Rightarrow> jsobj \<Rightarrow> world \<Rightarrow> jsobj \<times> world" where
  "addToQueue e item w =
     (let (uid, w1) = next_uuid e w;
          (now, w2) = new_Date e w1;
          queueItem = obj_assign item
            [(''id'', JStr uid), (''startedAt'', JNull), (''completedAt'', JNull),
             (''createdAt'', JNum (of_int now))]
      in (queueItem, w2\<lparr>processingQueue := fmupd uid queueItem (processingQueue w2)\<rparr>))"

definition updateQueueItem :: "string \<Rightarrow> jsobj \<Rightarrow> world \<Rightarrow> (js_error + jsobj) \<times> world" where
  "updateQueueItem uid item w =
     (case fmlookup (processingQueue w) uid of
        None \<Rightarrow> (Inl (Error ''Queue item not found''), w)
      | Some existing \<Rightarrow>
          (let updated = obj_assign existing item
           in (Inr updated, w\<lparr>processingQueue := fmupd uid updated (processingQueue w)\<rparr>)))"

definition createExtractionLog :: "env \<Rightarrow> jsobj \<Rightarrow> world \<Rightarrow> jsobj \<times> world" where
  "createExtractionLog e entry w =
     (let (uid, w1) = next_uuid e w;
          (now, w2) = new_Date e w1;
          newLog = obj_assign entry [(''id'', JStr uid), (''createdAt'', JNum (of_int now))]
      in (newLog, w2\<lparr>extractionLogs := fmupd uid newLog (extractionLogs w2)\<rparr>))"

text \<open>
  The constructor: empty maps, then \<open>initializeDefaultData\<close> stores the four default
  agents (and three data sources, which only draw identifiers and clock readings here)
  and seeds the aggregate metrics with demonstration values. The registry and the
  Gemini service are as their own constructors leave them: empty, and all counters 0.
\<close>

definition defaultAgents :: "jsobj list" where
  "defaultAgents =
     [[(''name'', JStr ''Web Scraper Agent''), (''type'', JStr ''web-scraper''),
       (''status'', JStr ''active''),
       (''config'', JObj [(''maxConcurrent'', JNum 5), (''timeout'', JNum 30000)]),
       (''metrics'', JObj [(''requestsToday'', JNum 145), (''successRate'', JNum (197 / 2)),
                          (''totalProcessed'', JNum 2341)])],
      [(''name'', JStr ''Data Extractor Agent''), (''type'', JStr ''data-extractor''),
       (''status'', JStr ''active''),
       (''config'', JObj [(''batchSize'', JNum 10), (''retryAttempts'', JNum 3)]),
       (''metrics'', JObj [(''requestsToday'', JNum 134), (''successRate'', JNum (481 / 5)),
                          (''totalProcessed'', JNum 2156)])],
      [(''name'', JStr ''Schema Validator Agent''), (''type'', JStr ''schema-validator''),
       (''status'', JStr ''processing''),
       (''config'', JObj [(''strictMode'', JBool True), (''validateAll'', JBool True)]),
       (''metrics'', JObj [(''requestsToday'', JNum 128), (''successRate'', JNum (991 / 10)),
                          (''totalProcessed'', JNum 2089)])],
      [(''name'', JStr ''Gemini LLM Agent''), (''type'', JStr ''gemini-llm''),
       (''status'', JStr ''idle''),
       (''config'', JObj [(''model'', JStr ''gemini-2.5-pro''), (''temperature'', JNum (3 / 10)),
                         (''maxTokens'', JNum 2048)]),
       (''metrics'', JObj [(''requestsToday'', JNum 67), (''successRate'', JNum (489 / 5)),
                          (''avgResponseTime'', JNum (13 / 10)), (''totalProcessed'', JNum 456)])]]"

definition store_default_agent :: "env \<Rightarrow> world \<Rightarrow> jsobj \<Rightarrow> world" where
  "store_default_agent e w agent =
     (let (uid, w1) = next_uuid e w;
          (t1, w2) = new_Date e w1;
          (t2, w3) = new_Date e w2;
          row = obj_assign ((''id'', JStr uid) # agent)
                  [(''lastActivity'', JNum (of_int t1)), (''createdAt'', JNum (of_int t2))]
      in w3\<lparr>agents := fmupd uid row (agents w3)\<rparr>)"

definition MemStorage_new :: "env \<Rightarrow> world" where
  "MemStorage_new e =
     (let w0 = \<lparr>restaurants = fmempty, agents = fmempty, processingQueue = fmempty,
                extractionLogs = fmempty,
                systemMetrics = \<lparr>metricsId = randomUUID e 0, totalRestaurants = 0,
                                  activeAgents = 0, processingRate = 0,
                                  successRate = ''94.2'', updatedAt = Date_now e 0\<rparr>,
                registry = [],
                gemini = \<lparr>requestCount = 0, successCount = 0, totalResponseTime = 0\<rparr>,
                uuid_calls = 1, clock_calls = 1\<rparr>;
          w1 = foldl (store_default_agent e) w0 defaultAgents;
          w2 = w1\<lparr>uuid_calls := uuid_calls w1 + 3, clock_calls := clock_calls w1 + 6\<rparr>
      in w2\<lparr>systemMetrics := (systemMetrics w2)
               \<lparr>totalRestaurants := 12847, activeAgents := 4, processingRate := 145\<rparr>\<rparr>)"

subsection \<open>Agent handles\<close>

text \<open>
  \<open>updateMetrics\<close> counts the request and recomputes the success rate from the
  running totals, in double arithmetic; the response time is given in milliseconds.
\<close>

definition updateMetrics :: "env \<Rightarrow> bool \<Rightarrow> int option \<Rightarrow> string option \<Rightarrow> AgentMetrics \<Rightarrow> AgentMetrics" where
  "updateMetrics e success responseTime err m =
     (let m1 = m\<lparr>requestsToday := requestsToday m + 1, totalProcessed := totalProcessed m + 1\<rparr>;
          m2 = (if success then m1
                else m1\<lparr>errorCount := errorCount m1 + 1, lastError := err\<rparr>);
          m3 = m2\<lparr>agentSuccessRate :=
                     (if totalProcessed m2 = 0 then None
                      else Some (to_double e
                             (to_double e (of_int (totalProcessed m2 - errorCount m2)
                                           / of_int (totalProcessed m2)) * 100)))\<rparr>
      in case responseTime of
           None \<Rightarrow> m3
         | Some t \<Rightarrow> m3\<lparr>avgResponseTime := Some (to_double e (of_int t / 1000))\<rparr>)"

definition update_agent :: "string \<Rightarrow> (BaseAgent \<Rightarrow> BaseAgent) \<Rightarrow> world \<Rightarrow> world" where
  "update_agent uid f w =
     w\<lparr>registry := map (\<lambda>a. if agent_id a = uid then f a else a) (registry w)\<rparr>"

definition updateStatus :: "env \<Rightarrow> string \<Rightarrow> string \<Rightarrow> world \<Rightarrow> world" where
  "updateStatus e uid st w =
     updateAgentStatus e uid st (update_agent uid (\<lambda>a. a\<lparr>status := st\<rparr>) w)"

definition getAgentsByType :: "string \<Rightarrow> world \<Rightarrow> BaseAgent list" where
  "getAgentsByType ty w = filter (\<lambda>a. agent_type a = ty) (registry w)"

text \<open>
  The body that the \<open>process\<close> methods of the agent classes share: read the clock, show
  the busy status, make the call, read the clock again, update the metrics, show
  \<open>idle\<close> and return the result, or show \<open>error\<close> and throw the error again.
\<close>

definition agent_call :: "env \<Rightarrow> string \<Rightarrow> string \<Rightarrow> (world \<Rightarrow> (js_error + 'a) \<times> world) \<Rightarrow> world \<Rightarrow> (js_error + 'a) \<times> world" where
  "agent_call e uid busy call w =
     (let (startTime, w1) = new_Date e w;
          w2 = updateStatus e uid busy w1;
          (outcome, w3) = call w2;
          (endTime, w4) = new_Date e w3;
          responseTime = endTime - startTime
      in case outcome of
           Inr result \<Rightarrow>
             (Inr result,
              updateStatus e uid ''idle''
                (update_agent uid
                   (\<lambda>a. a\<lparr>metrics := updateMetrics e True (Some responseTime) None (metrics a)\<rparr>) w4))
         | Inl err \<Rightarrow>
             (Inl err,
              updateStatus e uid ''error''
                (update_agent uid
                   (\<lambda>a. a\<lparr>metrics := updateMetrics e False (Some responseTime)
                                          (Some (error_message err)) (metrics a)\<rparr>) w4)))"

definition SchemaValidatorAgent_process :: "env \<Rightarrow> string \<Rightarrow> jsval \<Rightarrow> world \<Rightarrow> (js_error + ValidationResult) \<times> world" where
  "SchemaValidatorAgent_process e uid data w =
     agent_call e uid ''processing'' (\<lambda>w1. (validateRestaurantData (lib e) data, w1)) w"

subsection \<open>The Gemini service\<close>

text \<open>
  What the three methods of \<open>GeminiService\<close> share. Each reads the clock and counts the
  request, then builds its prompt and asks the SDK inside a \<open>try\<close>; \<open>outcome\<close> is what
  these two give, the text of the answer or the error thrown. On an answer the method
  reads the clock, adds the response time, counts the success and parses the text (or
  the fallback when there is none). Whatever is thrown inside the \<open>try\<close>, the
  SyntaxError of the parse included, is caught: the clock is read, the response time
  added (again, after a failed parse) and an \<open>Error\<close> naming the method is thrown.
\<close>

definition gemini_failed :: "env \<Rightarrow> string \<Rightarrow> int \<Rightarrow> string \<Rightarrow> world \<Rightarrow> (js_error + jsval) \<times> world" where
  "gemini_failed e what startTime msg w =
     (let (now, w1) = new_Date e w
      in (Inl (Error (''Gemini '' @ what @ '' failed: '' @ msg)),
          w1\<lparr>gemini := (gemini w1)
                \<lparr>totalResponseTime := totalResponseTime (gemini w1) + (now - startTime)\<rparr>\<rparr>))"

definition gemini_request :: "env \<Rightarrow> string \<Rightarrow> string \<Rightarrow> (js_error + jsval) \<Rightarrow> world \<Rightarrow> (js_error + jsval) \<times> world" where
  "gemini_request e what fallback outcome w =
     (let (startTime, w1) = new_Date e w;
          w2 = w1\<lparr>gemini := (gemini w1)\<lparr>requestCount := requestCount (gemini w1) + 1\<rparr>\<rparr>
      in case outcome of
           Inl err \<Rightarrow> gemini_failed e what startTime (error_message err) w2
         | Inr answer \<Rightarrow>
             (let (now, w3) = new_Date e w2;
                  w4 = w3\<lparr>gemini := (gemini w3)
                          \<lparr>totalResponseTime := totalResponseTime (gemini w3) + (now - startTime),
                           successCount := successCount (gemini w3) + 1\<rparr>\<rparr>;
                  txt = to_string (lib e) (js_or answer (JStr fallback))
              in case JSON_parse (lib e) txt of
                   Some result \<Rightarrow> (Inr result, w4)
                 | None \<Rightarrow> gemini_failed e what startTime (JSON_error_message e txt) w4))"

text \<open>
  The prompts are template strings over the request. Building one throws a TypeError
  when the request is \<open>undefined\<close> or \<open>null\<close>, when \<open>menuItems\<close> is given and is not an
  array (\<open>join\<close>), when \<open>conflictingData\<close> is not an array (\<open>map\<close>), or when one of its
  entries is \<open>undefined\<close> or \<open>null\<close>.
\<close>

definition synthesis_prompt :: "jsval \<Rightarrow> js_error + unit" where
  "synthesis_prompt request =
     bind_err (member request ''restaurantName'') (\<lambda>restaurantName.
     bind_err (member (js_get request ''conflictingData'') ''map'') (\<lambda>m.
       (case js_get request ''conflictingData'' of
          JArr sources \<Rightarrow>
            foldl (\<lambda>acc source. bind_err acc (\<lambda>u. bind_err (member source ''source'') (\<lambda>v. Inr ())))
              (Inr ()) sources
        | _ \<Rightarrow> Inl (TypeError ''request.conflictingData.map is not a function''))))"

definition cuisine_prompt :: "jsval \<Rightarrow> js_error + unit" where
  "cuisine_prompt request =
     bind_err (member request ''restaurantName'') (\<lambda>restaurantName.
       if truthy (js_get request ''menuItems'')
       then (case js_get request ''menuItems'' of
               JArr items \<Rightarrow> Inr ()
             | _ \<Rightarrow> Inl (TypeError ''request.menuItems.join is not a function''))
       else Inr ())"

definition address_prompt :: "jsval \<Rightarrow> js_error + unit" where
  "address_prompt request = bind_err (member request ''rawAddress'') (\<lambda>rawAddress. Inr ())"

definition synthesizeRestaurantData :: "env \<Rightarrow> jsval \<Rightarrow> world \<Rightarrow> (js_error + jsval) \<times> world" where
  "synthesizeRestaurantData e request w =
     gemini_request e ''synthesis'' ''{}''
       (bind_err (synthesis_prompt request)
          (\<lambda>u. generateContent e ''synthesizeRestaurantData'' request)) w"

definition classifyCuisine :: "env \<Rightarrow> jsval \<Rightarrow> world \<Rightarrow> (js_error + jsval) \<times> world" where
  "classifyCuisine e request w =
     gemini_request e ''cuisine classification'' ''[]''
       (bind_err (cuisine_prompt request)
          (\<lambda>u. generateContent e ''classifyCuisine'' request)) w"

definition validateAddress :: "env \<Rightarrow> jsval \<Rightarrow> world \<Rightarrow> (js_error + jsval) \<times> world" where
  "validateAddress e request w =
     gemini_request e ''address validation'' ''{}''
       (bind_err (address_prompt request)
          (\<lambda>u. generateContent e ''validateAddress'' request)) w"

text \<open>\<open>GeminiLLMAgent.process\<close>: the request goes to the method that its type names.\<close>

definition gemini_dispatch :: "env \<Rightarrow> jsval \<Rightarrow> world \<Rightarrow> (js_error + jsval) \<times> world" where
  "gemini_dispatch e data w =
     (case member data ''type'' of
        Inl err \<Rightarrow> (Inl err, w)
      | Inr ty \<Rightarrow>
          if ty = JStr ''synthesis'' then synthesizeRestaurantData e (js_get data ''request'') w
          else if ty = JStr ''cuisine'' then classifyCuisine e (js_get data ''request'') w
          else if ty = JStr ''address'' then validateAddress e (js_get data ''request'') w
          else (Inl (Error (''Unknown processing type: '' @ to_string (lib e) ty)), w))"

definition GeminiLLMAgent_process :: "env \<Rightarrow> string \<Rightarrow> jsval \<Rightarrow> world \<Rightarrow> (js_error + jsval) \<times> world" where
  "GeminiLLMAgent_process e uid data w = agent_call e uid ''active'' (gemini_dispatch e data) w"

section \<open>The fetcher\<close>

text \<open>
  \<open>s.trim()\<close>, \<open>s.toLowerCase()\<close> (of the letters A to Z) and \<open>s.includes(k)\<close>, on
  one-byte characters.
\<close>

definition js_trim :: "string \<Rightarrow> string" where
  "js_trim s = rev (dropWhile js_space (rev (dropWhile js_space s)))"

definition lower_char :: "char \<Rightarrow> char" where
  "lower_char c =
     (if 65 \<le> (of_char c :: nat) \<and> (of_char c :: nat) \<le> 90 then char_of (of_char c + 32 :: nat) else c)"

definition toLowerCase :: "string \<Rightarrow> string" where
  "toLowerCase s = map lower_char s"

fun js_includes :: "string \<Rightarrow> string \<Rightarrow> bool" where
  "js_includes [] k = (k = [])"
| "js_includes (c # cs) k = (take (length k) (c # cs) = k \<or> js_includes cs k)"

text \<open>
  The selector loops: the selectors are tried in order, and the first one whose first
  element has a trimmed text that passes the test gives the result.
\<close>

fun try_selectors :: "page \<Rightarrow> (string \<Rightarrow> bool) \<Rightarrow> string list \<Rightarrow> string option" where
  "try_selectors pg ok [] = None"
| "try_selectors pg ok (sel # sels) =
     (case first_text pg sel of
        None \<Rightarrow> try_selectors pg ok sels
      | Some t \<Rightarrow> if ok (js_trim t) then Some (js_trim t) else try_selectors pg ok sels)"

definition dq :: string where
  "dq = [CHR 0x22]"

definition ld_json_selector :: string where
  "ld_json_selector = ''script[type='' @ dq @ ''application/ld+json'' @ dq @ '']''"

record ScrapedData =
  title :: string
  description :: jsval
  scrapedAddress :: jsval
  rawContent :: string

definition extractTitle :: "page \<Rightarrow> string" where
  "extractTitle pg =
     (case try_selectors pg (\<lambda>t. t \<noteq> [] \<and> length t < 200)
             [''h1'', ''title'', ''[data-testid='' @ dq @ ''restaurant-name'' @ dq @ '']'',
              ''.restaurant-name'', ''.title'', ''h1.name'', ''.main-title''] of
        Some t \<Rightarrow> t
      | None \<Rightarrow> (if all_text pg ''title'' \<noteq> [] then all_text pg ''title''
                 else ''Unknown Restaurant''))"

fun description_from :: "page \<Rightarrow> string list \<Rightarrow> jsval" where
  "description_from pg [] = JUndefined"
| "description_from pg (sel # sels) =
     (case first_text pg sel of
        None \<Rightarrow> description_from pg sels
      | Some t \<Rightarrow>
          (let txt = (case first_attr pg sel ''content'' of
                        None \<Rightarrow> t
                      | Some a \<Rightarrow> if a \<noteq> [] then a else t)
           in if txt \<noteq> [] \<and> 20 < length (js_trim txt) then JStr (js_trim txt)
              else description_from pg sels))"

definition extractDescription :: "page \<Rightarrow> jsval" where
  "extractDescription pg =
     description_from pg
       [''[name='' @ dq @ ''description'' @ dq @ '']'',
        ''[property='' @ dq @ ''og:description'' @ dq @ '']'',
        ''.description'', ''.about'', ''.restaurant-description'', ''p.description'']"

text \<open>
  The address of the structured-data block, read by the fetcher: \<open>undefined\<close> when there
  is no block, when it does not parse, or when it has no usable address (an error
  raised while reading it is caught and ignored).
\<close>

definition scraper_ld_address :: "host \<Rightarrow> page \<Rightarrow> jsval" where
  "scraper_ld_address h pg =
     (case first_html pg ld_json_selector of
        None \<Rightarrow> JUndefined
      | Some jsonLd \<Rightarrow>
          if jsonLd = [] then JUndefined
          else (case JSON_parse h jsonLd of
                  None \<Rightarrow> JUndefined
                | Some data \<Rightarrow>
                   (case member data ''address'' of
                      Inl err \<Rightarrow> JUndefined
                    | Inr addr \<Rightarrow>
                        if \<not> truthy addr then JUndefined
                        else (case addr of
                                JStr s \<Rightarrow> JStr s
                              | _ \<Rightarrow>
                                 if truthy (js_get addr ''streetAddress'')
                                    \<or> truthy (js_get addr ''addressLocality'')
                                 then JStr (js_trim
                                        (to_string h (js_or (js_get addr ''streetAddress'') (JStr []))
                                         @ '' ''
                                         @ to_string h (js_or (js_get addr ''addressLocality'') (JStr []))))
                                 else JUndefined))))"

definition scraper_address_selectors :: "string list" where
  "scraper_address_selectors =
     [''[itemtype*='' @ dq @ ''PostalAddress'' @ dq @ '']'', ''.address'', ''.location'',
      ''.restaurant-address'', ''[data-testid='' @ dq @ ''address'' @ dq @ '']'',
      ''.contact-address'']"

text \<open>
  \<open>WebScrapingService.extractAddress\<close>: the selector loop comes first; the
  structured-data block is read only when no selector gave a text of more than 10
  characters.
\<close>

definition extractAddress :: "host \<Rightarrow> page \<Rightarrow> jsval" where
  "extractAddress h pg =
     (case try_selectors pg (\<lambda>t. t \<noteq> [] \<and> 10 < length t) scraper_address_selectors of
        Some t \<Rightarrow> JStr t
      | None \<Rightarrow> scraper_ld_address h pg)"

text \<open>
  \<open>scrapeRestaurant\<close>: a failed request is thrown again as an \<open>Error\<close> that names the
  URL. Of the scraped data the fields that the orchestrator or a claim reads are kept
  (title, description, address, raw content).
\<close>

definition scrapeRestaurant :: "env \<Rightarrow> string \<Rightarrow> js_error + ScrapedData" where
  "scrapeRestaurant e url =
     (case axios_get e url of
        Inl (AxiosError m) \<Rightarrow> Inl (Error (''Failed to scrape '' @ url @ '': '' @ m))
      | Inl (OtherError m) \<Rightarrow> Inl (Error (''Scraping error: '' @ m))
      | Inr body \<Rightarrow>
          (let pg = cheerio_load e body
           in Inr \<lparr>title = extractTitle pg, description = extractDescription pg,
                    scrapedAddress = extractAddress (lib e) pg, rawContent = html pg\<rparr>))"

section \<open>The field extractor\<close>

definition extractName :: "page \<Rightarrow> string" where
  "extractName pg =
     (case try_selectors pg (\<lambda>t. t \<noteq> [] \<and> 0 < length t \<and> length t < 200)
             [''h1.restaurant-name'', ''h1'',
              ''[data-testid='' @ dq @ ''restaurant-name'' @ dq @ '']'',
              ''.restaurant-title'', ''title''] of
        Some t \<Rightarrow> t
      | None \<Rightarrow> ''Unknown Restaurant'')"

definition extractor_address_selectors :: "string list" where
  "extractor_address_selectors =
     [''.address'', ''.location'', ''[itemtype*='' @ dq @ ''PostalAddress'' @ dq @ '']'',
      ''[data-testid='' @ dq @ ''address'' @ dq @ '']'', ''.contact-address'']"

definition extractor_ld_address :: "host \<Rightarrow> page \<Rightarrow> jsval" where
  "extractor_ld_address h pg =
     (case first_html pg ld_json_selector of
        None \<Rightarrow> JNull
      | Some jsonLd \<Rightarrow>
          if jsonLd = [] then JNull
          else (case JSON_parse h jsonLd of
                  None \<Rightarrow> JNull
                | Some data \<Rightarrow>
                   (case member data ''address'' of
                      Inl err \<Rightarrow> JNull
                    | Inr addr \<Rightarrow>
                        if \<not> truthy addr then JNull
                        else (case addr of
                                JStr s \<Rightarrow> JStr s
                              | _ \<Rightarrow>
                                 if truthy (js_get addr ''streetAddress'')
                                 then JStr (js_trim
                                        (to_string h (js_get addr ''streetAddress'')
                                         @ '' ''
                                         @ to_string h (js_or (js_get addr ''addressLocality'') (JStr []))
                                         @ '' ''
                                         @ to_string h (js_or (js_get addr ''postalCode'') (JStr []))))
                                 else JNull))))"

text \<open>
  \<open>DataExtractionService.findAddressText\<close>: again the selector loop first and the
  structured-data block after it.
\<close>

definition findAddressText :: "host \<Rightarrow> page \<Rightarrow> jsval" where
  "findAddressText h pg =
     (case try_selectors pg (\<lambda>t. t \<noteq> [] \<and> 10 < length t) extractor_address_selectors of
        Some t \<Rightarrow> JStr t
      | None \<Rightarrow> extractor_ld_address h pg)"

definition extractor_extractAddress :: "env \<Rightarrow> page \<Rightarrow> jsval" where
  "extractor_extractAddress e pg =
     (case findAddressText (lib e) pg of
        JStr s \<Rightarrow>
          if s = []
          then JObj [(''city'', JStr ''Unknown''), (''state'', JStr ''Unknown''),
                     (''country'', JStr ''India'')]
          else parseIndianAddress e s
      | _ \<Rightarrow> JObj [(''city'', JStr ''Unknown''), (''state'', JStr ''Unknown''),
                   (''country'', JStr ''India'')])"

definition cuisineKeywords :: "(string \<times> string list) list" where
  "cuisineKeywords =
     [(''North Indian'', [''north indian'', ''punjabi'', ''dal'', ''naan'', ''tandoor'', ''butter chicken'']),
      (''South Indian'', [''south indian'', ''dosa'', ''idli'', ''sambar'', ''vada'', ''uttapam'']),
      (''Chinese'', [''chinese'', ''chow mein'', ''fried rice'', ''manchurian'', ''hakka'']),
      (''Italian'', [''italian'', ''pizza'', ''pasta'', ''lasagna'', ''spaghetti'']),
      (''Continental'', [''continental'', ''continental food'']),
      (''Fast Food'', [''fast food'', ''burger'', ''sandwich'', ''fries'']),
      (''Vegetarian'', [''vegetarian'', ''veg only'', ''pure veg'']),
      (''Bakery'', [''bakery'', ''cakes'', ''pastries'', ''bread'', ''cookies'']),
      (''Street Food'', [''street food'', ''chaat'', ''pani puri'', ''bhel puri'']),
      (''Seafood'', [''seafood'', ''fish'', ''prawns'', ''crab'', ''lobster''])]"

definition extractCuisineTypes :: "page \<Rightarrow> string \<Rightarrow> string list" where
  "extractCuisineTypes pg restaurantName =
     (let text = toLowerCase (all_text pg ''body'' @ '' '' @ restaurantName);
          cuisines = map fst (filter (\<lambda>ck. list_ex (js_includes text) (snd ck)) cuisineKeywords)
      in if 0 < length cuisines then cuisines else [''Indian''])"

text \<open>
  \<open>extractRestaurantData\<close> builds the record field by field, in this order of keys.
\<close>

definition extractRestaurantData :: "env \<Rightarrow> string \<Rightarrow> string \<Rightarrow> world \<Rightarrow> jsobj \<times> world" where
  "extractRestaurantData e htmlContent sourceUrl w =
     (let pg = cheerio_load e htmlContent;
          (now, w1) = new_Date e w;
          name = extractName pg
      in ([(''dataSources'',
              JArr [JObj [(''source'', JStr ''web-scraping''), (''url'', JStr sourceUrl),
                          (''extractedAt'', JStr (toISOString (lib e) now)),
                          (''reliability'', JNum (4 / 5))]]),
           (''name'', JStr name),
           (''address'', extractor_extractAddress e pg),
           (''contactInfo'', extractContactInfo e pg),
           (''ratings'', extractRatings e pg),
           (''operatingHours'', extractOperatingHours e pg),
           (''priceRange'', extractPriceRange e pg),
           (''amenities'', extractAmenities e pg),
           (''cuisineTypes'', JArr (map JStr (extractCuisineTypes pg name)))],
          w1))"

section \<open>The orchestrator\<close>

text \<open>
  A step of the pipeline runs on the state and returns a value or the error it throws,
  with the state it leaves.
\<close>

type_synonym 'a run = "world \<Rightarrow> (js_error + 'a) \<times> world"

definition then_run :: "'a run \<Rightarrow> ('a \<Rightarrow> 'b run) \<Rightarrow> 'b run" where
  "then_run m f w = (case m w of (Inl err, w1) \<Rightarrow> (Inl err, w1) | (Inr x, w1) \<Rightarrow> f x w1)"

definition returns :: "'a \<Rightarrow> 'a run" where
  "returns x w = (Inr x, w)"

definition lift_run :: "(world \<Rightarrow> 'a \<times> world) \<Rightarrow> 'a run" where
  "lift_run f w = (case f w of (x, w1) \<Rightarrow> (Inr x, w1))"

definition show_int :: "int \<Rightarrow> string" where
  "show_int i = (if i < 0 then ''-'' @ show_nat (nat (- i)) else show_nat (nat i))"

text \<open>
  Cuisine classification by the reasoning service, asked for when the extracted record
  has no cuisine types and a \<open>gemini-llm\<close> agent exists.
\<close>

definition classify_cuisine :: "env \<Rightarrow> ScrapedData \<Rightarrow> jsobj \<Rightarrow> jsobj run" where
  "classify_cuisine e scrapedData extractedData w =
     (let cuisineTypes = js_get (JObj extractedData) ''cuisineTypes''
      in if \<not> truthy cuisineTypes \<or> js_get cuisineTypes ''length'' = JNum 0
         then (case getAgentsByType ''gemini-llm'' w of
                 [] \<Rightarrow> (Inr extractedData, w)
               | geminiAgent # others \<Rightarrow>
                   then_run
                     (GeminiLLMAgent_process e (agent_id geminiAgent)
                        (JObj [(''type'', JStr ''cuisine''),
                               (''request'', JObj
                                  [(''restaurantName'',
                                      js_or (js_get (JObj extractedData) ''name'') (JStr ''Unknown'')),
                                   (''description'', description scrapedData),
                                   (''location'',
                                      (if nullish (js_get (JObj extractedData) ''address'')
                                       then JUndefined
                                       else js_get (js_get (JObj extractedData) ''address'') ''city''))])]))
                     (\<lambda>classified. returns (obj_set ''cuisineTypes'' classified extractedData)) w)
         else (Inr extractedData, w))"

text \<open>
  Address validation by the reasoning service, asked for when the record has an address
  and the validator warned about missing coordinates.
\<close>

definition validate_address :: "env \<Rightarrow> ValidationResult \<Rightarrow> jsobj \<Rightarrow> jsobj run" where
  "validate_address e validationResult finalData w =
     (let addr = js_get (JObj finalData) ''address''
      in if truthy addr \<and> ''Missing geographical coordinates'' \<in> set (warnings validationResult)
         then (case getAgentsByType ''gemini-llm'' w of
                 [] \<Rightarrow> (Inr finalData, w)
               | geminiAgent # others \<Rightarrow>
                   then_run
                     (GeminiLLMAgent_process e (agent_id geminiAgent)
                        (JObj [(''type'', JStr ''address''),
                               (''request'', JObj
                                  [(''rawAddress'', js_or (js_get addr ''street'') (JStr [])),
                                   (''restaurantName'',
                                      js_or (js_get (JObj finalData) ''name'') (JStr ''Unknown'')),
                                   (''city'', js_get addr ''city''),
                                   (''state'', js_get addr ''state'')])]))
                     (\<lambda>validatedAddress.
                        returns (obj_set ''address''
                                   (JObj (obj_assign (js_spread addr) (js_spread validatedAddress)))
                                   finalData)) w)
         else (Inr finalData, w))"

text \<open>
  Step 4 of \<open>processRestaurantUrl\<close>: the reasoning stage, entered when the validation
  result is invalid or its completeness is below 80. \<open>finalData\<close> and
  \<open>extractedData\<close> name one object, so the second request reads the record as the
  first one left it.
\<close>

definition llm_processing :: "env \<Rightarrow> string \<Rightarrow> ScrapedData \<Rightarrow> jsobj \<Rightarrow> ValidationResult \<Rightarrow> jsobj run" where
  "llm_processing e qid scrapedData extractedData validationResult =
     (if \<not> isValid validationResult \<or> completeness validationResult < 80
      then then_run (updateQueueItem qid [(''status'', JStr ''llm_processing'')]) (\<lambda>updated.
           then_run (classify_cuisine e scrapedData extractedData) (\<lambda>finalData.
           validate_address e validationResult finalData))
      else returns extractedData)"

text \<open>Step 5: the record handed to \<open>createRestaurant\<close>, with its defaults.\<close>

definition restaurant_to_save :: "jsobj \<Rightarrow> ValidationResult \<Rightarrow> string \<Rightarrow> jsobj" where
  "restaurant_to_save finalData validationResult url =
     [(''name'', js_or (js_get (JObj finalData) ''name'') (JStr ''Unknown Restaurant'')),
      (''address'', js_or (js_get (JObj finalData) ''address'')
                      (JObj [(''city'', JStr ''Unknown''), (''state'', JStr ''Unknown''),
                             (''country'', JStr ''India'')])),
      (''cuisineTypes'', js_or (js_get (JObj finalData) ''cuisineTypes'') (JArr [JStr ''Indian''])),
      (''contactInfo'', js_or (js_get (JObj finalData) ''contactInfo'') (JObj [])),
      (''ratings'', js_or (js_get (JObj finalData) ''ratings'') (JObj [(''sources'', JObj [])])),
      (''operatingHours'', js_or (js_get (JObj finalData) ''operatingHours'') (JObj [])),
      (''priceRange'', js_or (js_get (JObj finalData) ''priceRange'') (JStr ''mid-range'')),
      (''amenities'', js_or (js_get (JObj finalData) ''amenities'') (JArr [])),
      (''dataSources'', js_or (js_get (JObj finalData) ''dataSources'') (JArr [])),
      (''status'', JStr (if isValid validationResult then ''validated'' else ''pending'')),
      (''completeness'', JStr (show_int (completeness validationResult))),
      (''accuracy'', JStr (show_int (accuracy validationResult))),
      (''website'', JStr url)]"

definition extraction_log :: "jsobj \<Rightarrow> jsobj \<Rightarrow> ValidationResult \<Rightarrow> string \<Rightarrow> int \<Rightarrow> jsobj" where
  "extraction_log restaurant queueItem validationResult url now =
     [(''restaurantId'', js_get (JObj restaurant) ''id''),
      (''agentId'', JNull),
      (''action'', JStr ''full_extraction''),
      (''status'', JStr ''success''),
      (''duration'',
         (case js_get (JObj queueItem) ''createdAt'' of
            JNum created \<Rightarrow> JNum (of_int now - created)
          | _ \<Rightarrow> JUndefined)),
      (''metadata'', JObj [(''url'', JStr url),
                           (''completeness'', JNum (of_int (completeness validationResult))),
                           (''accuracy'', JNum (of_int (accuracy validationResult)))])]"

text \<open>The \<open>try\<close> block of \<open>processRestaurantUrl\<close>.\<close>

definition process_try :: "env \<Rightarrow> string \<Rightarrow> jsobj \<Rightarrow> unit run" where
  "process_try e url queueItem =
     (let qid = to_string (lib e) (js_get (JObj queueItem) ''id'')
      in then_run (lift_run (new_Date e)) (\<lambda>startedAt.
         then_run (updateQueueItem qid
                     [(''status'', JStr ''scraping''), (''startedAt'', JNum (of_int startedAt))]) (\<lambda>u1.
         then_run (\<lambda>w. if length (getAgentsByType ''web-scraper'' w) = 0
                        then (Inl (Error ''No web scraper agents available''), w)
                        else (Inr (), w)) (\<lambda>u2.
         then_run (\<lambda>w. (scrapeRestaurant e url, w)) (\<lambda>scrapedData.
         then_run (updateQueueItem qid
                     [(''restaurantName'', JStr (title scrapedData)),
                      (''status'', JStr ''extracting'')]) (\<lambda>u3.
         then_run (lift_run (extractRestaurantData e (rawContent scrapedData) url)) (\<lambda>extractedData.
         then_run (updateQueueItem qid [(''status'', JStr ''validating'')]) (\<lambda>u4.
         then_run (\<lambda>w. (validateRestaurantData (lib e) (JObj extractedData), w)) (\<lambda>validationResult.
         then_run (llm_processing e qid scrapedData extractedData validationResult) (\<lambda>finalData.
         then_run (lift_run (createRestaurant e
                     (restaurant_to_save finalData validationResult url))) (\<lambda>restaurant.
         then_run (lift_run (new_Date e)) (\<lambda>completedAt.
         then_run (updateQueueItem qid
                     [(''status'', JStr ''completed''),
                      (''completedAt'', JNum (of_int completedAt))]) (\<lambda>u5.
         then_run (lift_run (new_Date e)) (\<lambda>now.
         then_run (lift_run (createExtractionLog e
                     (extraction_log restaurant queueItem validationResult url now))) (\<lambda>logged.
         returns ())))))))))))))))"

text \<open>
  \<open>processRestaurantUrl\<close>: the work item is queued, the block runs, and an error it
  throws is recorded on the queue entry and thrown again.
\<close>

definition processRestaurantUrl :: "env \<Rightarrow> string \<Rightarrow> unit run" where
  "processRestaurantUrl e url w =
     (let (queueItem, w1) = addToQueue e
            [(''restaurantName'', JStr ''Processing...''), (''sourceUrl'', JStr url),
             (''location'', JStr ''Unknown''), (''status'', JStr ''queued'')] w
      in case process_try e url queueItem w1 of
           (Inr u, w2) \<Rightarrow> (Inr u, w2)
         | (Inl err, w2) \<Rightarrow>
             (let (completedAt, w3) = new_Date e w2
              in case updateQueueItem (to_string (lib e) (js_get (JObj queueItem) ''id''))
                        [(''status'', JStr ''failed''),
                         (''completedAt'', JNum (of_int completedAt)),
                         (''errorMessage'', JStr (error_message err))] w3 of
                   (Inl err2, w4) \<Rightarrow> (Inl err2, w4)
                 | (Inr u, w4) \<Rightarrow> (Inl err, w4)))"

text \<open>The state of an agent handle as its constructor leaves it.\<close>

definition new_agent :: "string \<Rightarrow> string \<Rightarrow> string \<Rightarrow> BaseAgent" where
  "new_agent uid nm ty =
     \<lparr>agent_id = uid, agent_name = nm, agent_type = ty,
      metrics = \<lparr>requestsToday = 0, agentSuccessRate = Some 100, avgResponseTime = None,
                 totalProcessed = 0, errorCount = 0, lastError = None\<rparr>,
      status = ''idle''\<rparr>"

section \<open>Concrete records and surroundings\<close>

text \<open>
  A host, a page, an environment, a state and records on which the model is run. The
  runs below read neither an email nor a URL and convert no value, so those answers of
  the host do not enter them; its \<open>JSON.parse\<close> knows the one structured-data block of
  the page.
\<close>

definition demo_ld_json :: string where
  "demo_ld_json = ''{'' @ dq @ ''address'' @ dq @ '': '' @ dq @ ''1 Hotel Lane, Mumbai'' @ dq @ ''}''"

definition demo_host :: host where
  "demo_host =
     \<lparr>zod_email = emailRegex, zod_url = (\<lambda>s. take 4 s = ''http''),
      String_conv = (\<lambda>v. ''[object Object]''), Number_conv = (\<lambda>v. None),
      JSON_parse = (\<lambda>s. if s = demo_ld_json
                          then Some (JObj [(''address'', JStr ''1 Hotel Lane, Mumbai'')])
                          else None),
      toISOString = (\<lambda>t. ''2024-01-01T00:00:00.000Z'')\<rparr>"

text \<open>
  A page with a heading, an element of class \<open>address\<close> and a structured-data block
  that gives another address.
\<close>

definition demo_page :: page where
  "demo_page =
     \<lparr>first_text = (\<lambda>sel. if sel = ''h1'' then Some ''Spice Route''
                           else if sel = ''.address'' then Some '' 12 MG Road, Camp, Pune 411001 ''
                           else None),
      first_attr = (\<lambda>sel a. None),
      first_html = (\<lambda>sel. if sel = ld_json_selector then Some demo_ld_json else None),
      all_text = (\<lambda>sel. if sel = ''body''
                         then ''Spice Route 12 MG Road, Camp, Pune 411001 Butter Chicken and Naan''
                         else []),
      html = ''<html><body><h1>Spice Route</h1></body></html>''\<rparr>"

definition demo_env :: env where
  "demo_env =
     \<lparr>lib = demo_host,
      randomUUID = (\<lambda>n. ''uuid-'' @ show_nat n),
      Date_now = (\<lambda>n. 1700000000000 + int n),
      axios_get = (\<lambda>url. if url = ''https://unreachable.example''
                          then Inl (AxiosError ''connect ETIMEDOUT'')
                          else Inr ''<html><body><h1>Spice Route</h1></body></html>''),
      cheerio_load = (\<lambda>body. demo_page),
      generateContent = (\<lambda>method request. Inl (Error ''quota exceeded'')),
      JSON_error_message = (\<lambda>txt. ''Unexpected end of JSON input''),
      to_double = (\<lambda>x. x),
      parseIndianAddress = (\<lambda>s. JObj [(''country'', JStr ''India''), (''postalCode'', JStr ''411001''),
                                        (''state'', JStr ''Maharashtra''),
                                        (''city'', JStr ''Pune''), (''street'', JStr s),
                                        (''formatted'', JStr s)]),
      extractContactInfo = (\<lambda>pg. JObj []),
      extractRatings = (\<lambda>pg. JObj [(''sources'', JObj [])]),
      extractOperatingHours = (\<lambda>pg. JObj [(''monday'', JObj [(''open'', JStr ''10:00''),
                                                             (''close'', JStr ''22:00'')])]),
      extractPriceRange = (\<lambda>pg. JStr ''mid-range''),
      extractAmenities = (\<lambda>pg. JArr [])\<rparr>"



text \<open>A fresh storage, with one handle in the registry per default agent.\<close>

text \<open>A page whose text names no cuisine keyword.\<close>

definition plain_page :: page where
  "plain_page = demo_page\<lparr>all_text := (\<lambda>sel. if sel = ''body'' then ''Welcome to our place'' else [])\<rparr>"

text \<open>A page with the structured-data block only.\<close>

definition bare_page :: page where
  "bare_page = demo_page\<lparr>first_text := (\<lambda>sel. None)\<rparr>"

definition demo_world :: world where
  "demo_world =
     (MemStorage_new demo_env)
       \<lparr>registry := [new_agent ''uuid-1'' ''Web Scraper Agent'' ''web-scraper'',
                     new_agent ''uuid-2'' ''Data Extractor Agent'' ''data-extractor'',
                     new_agent ''uuid-3'' ''Schema Validator Agent'' ''schema-validator'',
                     new_agent ''uuid-4'' ''Gemini LLM Agent'' ''gemini-llm'']\<rparr>"

definition record_without :: "string list \<Rightarrow> jsobj \<Rightarrow> jsobj" where
  "record_without ks kvs = filter (\<lambda>kv. fst kv \<notin> set ks) kvs"

definition spice_route_address :: jsobj where
  "spice_route_address =
     [(''city'', JStr ''Pune''), (''state'', JStr ''Maharashtra''), (''country'', JStr ''India'')]"

definition spice_route :: jsobj where
  "spice_route =
     [(''name'', JStr ''Spice Route''),
      (''address'', JObj spice_route_address),
      (''cuisineTypes'', JArr [JStr ''North Indian'']),
      (''contactInfo'', JObj [(''phone'', JStr ''+91 98765 43210'')]),
      (''ratings'', JObj [(''average'', JNum (21 / 5)), (''sources'', JObj [])]),
      (''operatingHours'',
         JObj [(''monday'', JObj [(''open'', JStr ''10:00''), (''close'', JStr ''22:00'')])]),
      (''priceRange'', JStr ''mid-range''),
      (''amenities'', JArr []),
      (''dataSources'',
         JArr [JObj [(''source'', JStr ''web-scraping''),
                     (''extractedAt'', JStr ''2024-01-01T00:00:00.000Z''),
                     (''reliability'', JNum (4 / 5))]])]"

text \<open>The same record with its name and its city left out.\<close>

definition spice_route_nameless :: jsobj where
  "spice_route_nameless =
     obj_set ''address'' (JObj (record_without [''city''] spice_route_address))
       (record_without [''name''] spice_route)"

text \<open>The same record under a one-letter name and under a name of 201 letters.\<close>

definition spice_route_short_name :: jsobj where
  "spice_route_short_name = obj_set ''name'' (JStr ''A'') spice_route"

definition spice_route_long_name :: jsobj where
  "spice_route_long_name = obj_set ''name'' (JStr (replicate 201 CHR ''a'')) spice_route"

section \<open>The completeness score as the specification words it\<close>

text \<open>
  For comparison with \<open>calculateCompleteness\<close>: a field counts when the value at its
  path is present, not \<open>null\<close> and not the empty string; each required field is worth
  an equal share of 70, each optional field an equal share of 30.
\<close>

definition value_at :: "jsval \<Rightarrow> string list \<Rightarrow> jsval" where
  "value_at obj ks = foldl (\<lambda>cur k. if nullish cur then JUndefined else js_get cur k) obj ks"

definition spec_hasField :: "jsval \<Rightarrow> string \<Rightarrow> bool" where
  "spec_hasField obj p =
     (let v = value_at obj (js_split CHR ''.'' p)
      in v \<noteq> JUndefined \<and> v \<noteq> JNull \<and> v \<noteq> JStr [])"

definition spec_completeness :: "jsval \<Rightarrow> int" where
  "spec_completeness data =
     js_round (of_nat (length (filter (spec_hasField data) requiredFields)) * (70 / 11)
               + of_nat (length (filter (spec_hasField data) optionalFields)) * (30 / 8))"

section \<open>Properties of the completeness score\<close>

lemma js_split_nonempty: "js_split c s \<noteq> []"
  by (induction s) (auto split: list.splits)

lemma hasField_step_defined: "v \<noteq> JUndefined \<Longrightarrow> hasField_step v k \<noteq> JUndefined"
  by (simp add: hasField_step_def)

lemma foldl_hasField_step_defined:
  "v \<noteq> JUndefined \<Longrightarrow> foldl hasField_step v ks \<noteq> JUndefined"
  by (induction ks arbitrary: v) (simp_all add: hasField_step_defined)

lemma foldl_hasField_step_undefined: "foldl hasField_step JUndefined ks = JUndefined"
  by (induction ks) (simp_all add: hasField_step_def)

lemma hasField_iff: "hasField obj p \<longleftrightarrow> obj \<noteq> JUndefined"
  using foldl_hasField_step_defined [of obj] foldl_hasField_step_undefined
  by (auto simp: hasField_def)

lemma calculateCompleteness_defined:
  "data \<noteq> JUndefined \<Longrightarrow> calculateCompleteness data = 100"
  by (simp add: calculateCompleteness_def hasField_iff requiredFields_def
      optionalFields_def js_round_def floor_eq_iff)

lemma calculateCompleteness_undefined: "calculateCompleteness JUndefined = 0"
  by (simp add: calculateCompleteness_def hasField_iff requiredFields_def
      optionalFields_def js_round_def floor_eq_iff)

lemma calculateCompleteness_range:
  "0 \<le> calculateCompleteness d \<and> calculateCompleteness d \<le> 100"
  by (cases "d = JUndefined")
     (simp_all add: calculateCompleteness_defined calculateCompleteness_undefined)

text \<open>
  C1 (the code departs from the claim). The claim has a field contribute its share
  exactly when it is present, not null and not empty, so that a record without its name
  or city scores strictly less. The reducer of \<open>hasField\<close> returns a boolean, which is
  never \<open>undefined\<close>: every field counts on every record. On the record
  \<open>spice_route\<close> and on the same record without name and city the validator returns
  completeness 100 both times, where the score as the specification words it is 78 and
  65.
\<close>

theorem C1_completeness_counts_absent_fields:
  "(case validateRestaurantData demo_host (JObj spice_route) of
      Inr r \<Rightarrow> completeness r = 100 | Inl e \<Rightarrow> False)
   \<and> (case validateRestaurantData demo_host (JObj spice_route_nameless) of
      Inr r \<Rightarrow> completeness r = 100 | Inl e \<Rightarrow> False)
   \<and> spec_completeness (JObj spice_route) = 78
   \<and> spec_completeness (JObj spice_route_nameless) = 65"
  by code_simp

theorem C1_completeness_counts_absent_fields_witness:
  "(case validateRestaurantData demo_host (JObj spice_route_nameless) of
      Inr r \<Rightarrow> completeness r \<noteq> spec_completeness (JObj spice_route_nameless)
    | Inl e \<Rightarrow> False)"
  using C1_completeness_counts_absent_fields by (auto split: sum.splits)

section \<open>The range of the scores\<close>

lemma calculateAccuracy_range:
  "calculateAccuracy h d = Inr acc \<Longrightarrow> 0 \<le> acc \<and> acc \<le> 100"
  by (auto simp: calculateAccuracy_def bind_err_def Let_def split: sum.splits)

lemma partial_completeness_range:
  "0 \<le> partial_completeness h d \<and> partial_completeness h d \<le> 100"
  using calculateCompleteness_range
  by (auto simp: partial_completeness_def split: sum.splits)

lemma validate_try_range:
  assumes "validate_try h d initial_result = (r, t)"
  shows "0 \<le> completeness r \<and> completeness r \<le> 100 \<and> 0 \<le> accuracy r \<and> accuracy r \<le> 100"
proof (cases "zod_parse h restaurantDataSchema d")
  case (Inl issues)
  with assms have "r = initial_result"
    by (simp add: validate_try_def)
  then show ?thesis
    by (simp add: initial_result_def)
next
  case (Inr parsed)
  note c = calculateCompleteness_range [of parsed]
  show ?thesis
  proof (cases "calculateAccuracy h parsed")
    case (Inl e)
    with assms Inr c show ?thesis
      by (auto simp: validate_try_def Let_def initial_result_def)
  next
    case acc: (Inr acc)
    note a = calculateAccuracy_range [OF acc]
    from assms Inr acc c a show ?thesis
      by (auto simp: validate_try_def Let_def initial_result_def split: sum.splits)
  qed
qed

lemma validateRestaurantData_returns:
  "\<exists>r. validateRestaurantData h data = Inr r
       \<and> 0 \<le> completeness r \<and> completeness r \<le> 100
       \<and> 0 \<le> accuracy r \<and> accuracy r \<le> 100"
proof -
  obtain r t where rt: "validate_try h data initial_result = (r, t)"
    by (cases "validate_try h data initial_result")
  note b = validate_try_range [OF rt] partial_completeness_range [of h data]
  show ?thesis
  proof (cases t)
    case None
    with rt b show ?thesis
      by (simp add: validateRestaurantData_def)
  next
    case (Some th)
    with rt b show ?thesis
      by (cases th) (simp_all add: validateRestaurantData_def)
  qed
qed

text \<open>
  C3. On every input the validator returns a result, and its completeness and accuracy
  lie between 0 and 100.
\<close>

theorem C3_scores_between_0_and_100:
  "\<exists>r. validateRestaurantData h data = Inr r
       \<and> 0 \<le> completeness r \<and> completeness r \<le> 100
       \<and> 0 \<le> accuracy r \<and> accuracy r \<le> 100"
  by (rule validateRestaurantData_returns)

theorem C3_scores_between_0_and_100_witness:
  "\<exists>r. validateRestaurantData demo_host (JObj spice_route) = Inr r
       \<and> 0 \<le> completeness r \<and> completeness r \<le> 100
       \<and> 0 \<le> accuracy r \<and> accuracy r \<le> 100"
  using C3_scores_between_0_and_100 [of demo_host "JObj spice_route"] by simp

section \<open>Structural failure\<close>

text \<open>A parse ends valid exactly when it has collected no issue.\<close>

lemma parse_status_cases: "s \<noteq> Aborted \<Longrightarrow> s \<noteq> Dirty \<Longrightarrow> s = Valid"
  by (cases s) auto

lemma merge_status_Valid:
  "merge_status own parts = Valid \<longleftrightarrow> own \<noteq> Dirty \<and> (\<forall>s\<in>set parts. s = Valid)"
  by (auto simp: merge_status_def intro: parse_status_cases)

lemma p_status_checked: "p_status (checked v is) = Valid \<longleftrightarrow> is = []"
  by (simp add: checked_def p_status_def)

lemma p_issues_checked: "p_issues (checked v is) = is"
  by (simp add: checked_def p_issues_def)

lemma p_status_triple: "p_status (s, x, is) = s"
  by (simp add: p_status_def)

lemma p_issues_triple: "p_issues (s, x, is) = is"
  by (simp add: p_issues_def)

lemma object_result_valid:
  assumes "\<And>kr. kr \<in> set rs \<Longrightarrow> (p_status (snd kr) = Valid \<longleftrightarrow> p_issues (snd kr) = [])"
  shows "p_status (object_result kvs rs) = Valid \<longleftrightarrow> p_issues (object_result kvs rs) = []"
  using assms
  by (simp add: object_result_def merge_status_Valid p_status_triple p_issues_triple)

lemma union_result_valid:
  assumes "\<And>r. r \<in> set rs \<Longrightarrow> (p_status r = Valid \<longleftrightarrow> p_issues r = [])"
  shows "p_status (union_result p rs) = Valid \<longleftrightarrow> p_issues (union_result p rs) = []"
proof (cases "filter (\<lambda>r. p_status r = Valid) rs")
  case (Cons r rest)
  then have "r \<in> set (filter (\<lambda>r. p_status r = Valid) rs)"
    by simp
  then have "r \<in> set rs" "p_status r = Valid"
    by auto
  with assms [of r] Cons show ?thesis
    by (simp add: union_result_def)
next
  case Nil
  show ?thesis
  proof (cases "filter (\<lambda>r. p_status r = Dirty) rs")
    case (Cons r rest)
    then have "r \<in> set (filter (\<lambda>r. p_status r = Dirty) rs)"
      by simp
    then have "r \<in> set rs" "p_status r = Dirty"
      by auto
    with assms [of r] have "p_status r \<noteq> Valid" "p_issues r \<noteq> []"
      by auto
    with Cons Nil show ?thesis
      by (simp add: union_result_def)
  next
    case n: Nil
    with Nil show ?thesis
      by (simp add: union_result_def p_status_triple p_issues_triple)
  qed
qed

lemma leaf_valid:
  "p_status (Aborted, JUndefined, [i]) = Valid \<longleftrightarrow> p_issues (Aborted, JUndefined, [i]) = []"
  by (simp add: p_status_triple p_issues_triple)

lemma zparse_valid_iff:
  "p_status (zparse h s p v) = Valid \<longleftrightarrow> p_issues (zparse h s p v) = []"
proof (induction h s p v rule: zparse.induct)
  case (1 lib mn fmt p v)
  then show ?case
    by (cases v) (simp_all add: p_status_checked p_issues_checked p_status_triple p_issues_triple)
next
  case (2 lib mn mx p v)
  then show ?case
    by (cases v) (simp_all add: p_status_checked p_issues_checked p_status_triple p_issues_triple)
next
  case (3 lib p v)
  then show ?case
    by (cases v) (simp_all add: p_status_triple p_issues_triple)
next
  case (4 lib vals p v)
  then show ?case
    by (cases v) (simp_all add: p_status_triple p_issues_triple)
next
  case (5 lib s p v)
  then show ?case
    by (simp add: p_status_triple p_issues_triple)
next
  case (6 lib s mn p v)
  show ?case
  proof (cases v)
    case (JArr xs)
    have "\<And>ix. ix \<in> set (enumerate 0 xs) \<Longrightarrow>
            (p_status (zparse lib s (p @ [Idx (fst ix)]) (snd ix)) = Valid)
              = (p_issues (zparse lib s (p @ [Idx (fst ix)]) (snd ix)) = [])"
      using 6 JArr by blast
    then show ?thesis
      using JArr
      by (simp add: Let_def merge_status_Valid p_status_triple p_issues_triple)
  qed (simp_all add: p_status_triple p_issues_triple)
next
  case (7 lib shape p v)
  show ?case
  proof (cases v)
    case (JObj kvs)
    have "\<And>ks. ks \<in> set shape \<Longrightarrow>
            (p_status (zparse lib (snd ks) (p @ [Key (fst ks)]) (js_get v (fst ks))) = Valid)
              = (p_issues (zparse lib (snd ks) (p @ [Key (fst ks)]) (js_get v (fst ks))) = [])"
      using 7 JObj by (metis prod.collapse)
    then have "p_status (object_result kvs
            (map (\<lambda>ks. (fst ks, zparse lib (snd ks) (p @ [Key (fst ks)]) (js_get v (fst ks)))) shape)) = Valid
        \<longleftrightarrow> p_issues (object_result kvs
            (map (\<lambda>ks. (fst ks, zparse lib (snd ks) (p @ [Key (fst ks)]) (js_get v (fst ks)))) shape)) = []"
      by (intro object_result_valid) auto
    with JObj show ?thesis
      by simp
  qed (simp_all add: p_status_triple p_issues_triple)
next
  case (8 lib s p v)
  show ?case
  proof (cases v)
    case (JObj kvs)
    have "\<And>kx. kx \<in> set kvs \<Longrightarrow>
            (p_status (zparse lib s (p @ [Key (fst kx)]) (snd kx)) = Valid)
              = (p_issues (zparse lib s (p @ [Key (fst kx)]) (snd kx)) = [])"
      using 8 JObj by (metis prod.collapse)
    then have "p_status (object_result kvs
            (map (\<lambda>kx. (fst kx, zparse lib s (p @ [Key (fst kx)]) (snd kx))) kvs)) = Valid
        \<longleftrightarrow> p_issues (object_result kvs
            (map (\<lambda>kx. (fst kx, zparse lib s (p @ [Key (fst kx)]) (snd kx))) kvs)) = []"
      by (intro object_result_valid) auto
    with JObj show ?thesis
      by simp
  qed (simp_all add: p_status_triple p_issues_triple)
next
  case (9 lib opts p v)
  have "p_status (union_result p (map (\<lambda>s. zparse lib s p v) opts)) = Valid
      \<longleftrightarrow> p_issues (union_result p (map (\<lambda>s. zparse lib s p v) opts)) = []"
    using 9 by (intro union_result_valid) auto
  then show ?case
    by simp
qed

lemma zod_parse_issues_nonempty: "zod_parse h sch v = Inl issues \<Longrightarrow> issues \<noteq> []"
  by (auto simp: zod_parse_def Let_def zparse_valid_iff split: if_splits)

text \<open>
  C5. The validator returns a result on every input. When the record fails the schema,
  the result is invalid, carries one formatted error per issue (at least one) and the
  paths of the fields reported missing, and its completeness is that of the record
  parsed against the all-optional schema, or 0 when that parse fails as well.
\<close>

theorem C5_structural_failure_returns_result:
  "(\<exists>r. validateRestaurantData h data = Inr r)
   \<and> (\<forall>issues. zod_parse h restaurantDataSchema data = Inl issues \<longrightarrow>
        (\<exists>r. validateRestaurantData h data = Inr r
           \<and> \<not> isValid r
           \<and> errors r = map format_issue issues \<and> errors r \<noteq> []
           \<and> missingFields r = extractMissingFields issues
           \<and> completeness r =
               (case zod_parse h (deepPartial restaurantDataSchema) data of
                  Inr partialData \<Rightarrow> calculateCompleteness partialData
                | Inl e \<Rightarrow> 0)))"
proof (intro conjI allI impI)
  show "\<exists>r. validateRestaurantData h data = Inr r"
    using validateRestaurantData_returns by blast
next
  fix issues
  assume p: "zod_parse h restaurantDataSchema data = Inl issues"
  then have "issues \<noteq> []"
    by (rule zod_parse_issues_nonempty)
  with p show "\<exists>r. validateRestaurantData h data = Inr r
           \<and> \<not> isValid r
           \<and> errors r = map format_issue issues \<and> errors r \<noteq> []
           \<and> missingFields r = extractMissingFields issues
           \<and> completeness r =
               (case zod_parse h (deepPartial restaurantDataSchema) data of
                  Inr partialData \<Rightarrow> calculateCompleteness partialData
                | Inl e \<Rightarrow> 0)"
    by (simp add: validateRestaurantData_def validate_try_def initial_result_def
        partial_completeness_def)
qed

theorem C5_structural_failure_returns_result_witness:
  "zod_parse demo_host restaurantDataSchema (JObj spice_route_nameless)
     = Inl [\<lparr>path = [Key ''name''], code = invalid_type ''string'' TUndefined,
              message = ''Required''\<rparr>,
            \<lparr>path = [Key ''address'', Key ''city''], code = invalid_type ''string'' TUndefined,
              message = ''Required''\<rparr>]
   \<and> (\<exists>r. validateRestaurantData demo_host (JObj spice_route_nameless) = Inr r
          \<and> \<not> isValid r
          \<and> errors r = [''name: Required'', ''address.city: Required'']
          \<and> missingFields r = [''name'', ''address.city'']
          \<and> completeness r = 100)"
proof -
  let ?issues = "[\<lparr>path = [Key ''name''], code = invalid_type ''string'' TUndefined,
              message = ''Required''\<rparr>,
            \<lparr>path = [Key ''address'', Key ''city''], code = invalid_type ''string'' TUndefined,
              message = ''Required''\<rparr>]"
  have p: "zod_parse demo_host restaurantDataSchema (JObj spice_route_nameless) = Inl ?issues"
    by code_simp
  have q: "(case zod_parse demo_host (deepPartial restaurantDataSchema) (JObj spice_route_nameless) of
              Inr partialData \<Rightarrow> calculateCompleteness partialData
            | Inl e \<Rightarrow> 0) = 100"
    by code_simp
  have f: "map format_issue ?issues = [''name: Required'', ''address.city: Required'']"
    by code_simp
  have m: "extractMissingFields ?issues = [''name'', ''address.city'']"
    by code_simp
  from C5_structural_failure_returns_result [of demo_host "JObj spice_route_nameless"] p
  obtain r where "validateRestaurantData demo_host (JObj spice_route_nameless) = Inr r"
      "\<not> isValid r" "errors r = map format_issue ?issues"
      "missingFields r = extractMissingFields ?issues"
      "completeness r =
         (case zod_parse demo_host (deepPartial restaurantDataSchema) (JObj spice_route_nameless) of
            Inr partialData \<Rightarrow> calculateCompleteness partialData
          | Inl e \<Rightarrow> 0)"
    by blast
  with p q f m show ?thesis
    by simp
qed

section \<open>The name constraint\<close>

text \<open>
  C9 (the code departs from the claim). The claim has the validator reject a name of
  one character or of more than 200. The schema asks for \<open>z.string().min(1)\<close> only:
  the record \<open>spice_route\<close> under the name \<open>A\<close>, and under a name of 201 letters, is
  returned valid and without errors.
\<close>

theorem C9_short_and_long_names_accepted:
  "(case validateRestaurantData demo_host (JObj spice_route_short_name) of
      Inr r \<Rightarrow> isValid r \<and> errors r = [] | Inl e \<Rightarrow> False)
   \<and> (case validateRestaurantData demo_host (JObj spice_route_long_name) of
      Inr r \<Rightarrow> isValid r \<and> errors r = [] | Inl e \<Rightarrow> False)"
  by code_simp

theorem C9_short_and_long_names_accepted_witness:
  "js_get (JObj spice_route_short_name) ''name'' = JStr ''A''
   \<and> (\<exists>r. validateRestaurantData demo_host (JObj spice_route_short_name) = Inr r \<and> isValid r)"
proof -
  have "js_get (JObj spice_route_short_name) ''name'' = JStr ''A''"
    by code_simp
  with C9_short_and_long_names_accepted show ?thesis
    by (auto split: sum.splits)
qed

section \<open>The restaurant count\<close>

lemma restaurants_store_default_agent [simp]:
  "restaurants (store_default_agent e w a) = restaurants w"
  by (simp add: store_default_agent_def next_uuid_def new_Date_def Let_def)

lemma restaurants_foldl_store_default_agent [simp]:
  "restaurants (foldl (store_default_agent e) w as) = restaurants w"
  by (induction as arbitrary: w) simp_all

lemma restaurants_MemStorage_new [simp]: "restaurants (MemStorage_new e) = fmempty"
  by (simp add: MemStorage_new_def Let_def)

lemma totalRestaurants_MemStorage_new: "totalRestaurants (systemMetrics (MemStorage_new e)) = 12847"
  by (simp add: MemStorage_new_def Let_def)

lemma restaurants_createRestaurant:
  "restaurants (snd (createRestaurant e r w))
     = fmupd (randomUUID e (uuid_calls w)) (fst (createRestaurant e r w)) (restaurants w)"
  by (simp add: createRestaurant_def next_uuid_def new_Date_def Let_def)

text \<open>
  C10. After \<open>createRestaurant\<close> and after \<open>deleteRestaurant\<close> the metric
  \<open>totalRestaurants\<close> is the number of restaurants stored. On a fresh storage, whose
  metric is seeded with 12847, the first creation leaves it at 1 and a deletion at 0.
  Deleting an identifier that is not stored leaves the stored restaurants as they were.
\<close>

theorem C10_totalRestaurants_is_stored_count:
  "totalRestaurants (systemMetrics (snd (createRestaurant e r w)))
     = int (fcard (fmdom (restaurants (snd (createRestaurant e r w)))))
   \<and> totalRestaurants (systemMetrics (deleteRestaurant i w))
     = int (fcard (fmdom (restaurants (deleteRestaurant i w))))
   \<and> totalRestaurants (systemMetrics (MemStorage_new e)) = 12847
   \<and> totalRestaurants (systemMetrics (snd (createRestaurant e r (MemStorage_new e)))) = 1
   \<and> totalRestaurants (systemMetrics (deleteRestaurant i (MemStorage_new e))) = 0
   \<and> (fmlookup (restaurants w) i = None \<longrightarrow>
        restaurants (deleteRestaurant i w) = restaurants w)"
proof (intro conjI impI)
  show "totalRestaurants (systemMetrics (snd (createRestaurant e r w)))
     = int (fcard (fmdom (restaurants (snd (createRestaurant e r w)))))"
    by (simp add: createRestaurant_def next_uuid_def new_Date_def Let_def Map_size_def)
  show "totalRestaurants (systemMetrics (deleteRestaurant i w))
     = int (fcard (fmdom (restaurants (deleteRestaurant i w))))"
    by (simp add: deleteRestaurant_def Let_def Map_size_def)
  show "totalRestaurants (systemMetrics (MemStorage_new e)) = 12847"
    by (rule totalRestaurants_MemStorage_new)
  show "totalRestaurants (systemMetrics (snd (createRestaurant e r (MemStorage_new e)))) = 1"
    by (simp add: createRestaurant_def next_uuid_def new_Date_def Let_def Map_size_def
        fcard_finsert_if)
  show "totalRestaurants (systemMetrics (deleteRestaurant i (MemStorage_new e))) = 0"
    by (simp add: deleteRestaurant_def Let_def Map_size_def)
next
  assume "fmlookup (restaurants w) i = None"
  then have "fmdrop i (restaurants w) = restaurants w"
    by (simp add: fmdrop_idle' fmdom'_notI)
  then show "restaurants (deleteRestaurant i w) = restaurants w"
    by (simp add: deleteRestaurant_def Let_def)
qed

theorem C10_totalRestaurants_is_stored_count_witness:
  "fmlookup (restaurants (snd (createRestaurant demo_env spice_route demo_world))) ''no-such-id'' = None
   \<and> restaurants (deleteRestaurant ''no-such-id'' (snd (createRestaurant demo_env spice_route demo_world)))
       = restaurants (snd (createRestaurant demo_env spice_route demo_world))
   \<and> totalRestaurants (systemMetrics
         (deleteRestaurant ''no-such-id'' (snd (createRestaurant demo_env spice_route demo_world)))) = 1"
proof -
  let ?w = "snd (createRestaurant demo_env spice_route demo_world)"
  have n: "fmlookup (restaurants ?w) ''no-such-id'' = None"
    by code_simp
  have c: "int (fcard (fmdom (restaurants ?w))) = 1"
    by code_simp
  from C10_totalRestaurants_is_stored_count [of demo_env spice_route ?w "''no-such-id''"] n
  have "restaurants (deleteRestaurant ''no-such-id'' ?w) = restaurants ?w"
    and "totalRestaurants (systemMetrics (deleteRestaurant ''no-such-id'' ?w))
           = int (fcard (fmdom (restaurants (deleteRestaurant ''no-such-id'' ?w))))"
    by blast+
  with n c show ?thesis
    by simp
qed

section \<open>Address extraction\<close>

lemma try_selectors_first:
  "sels = pre @ sel # post \<Longrightarrow> first_text pg sel = Some raw \<Longrightarrow> ok (js_trim raw) \<Longrightarrow>
   (\<forall>s\<in>set pre. \<forall>r. first_text pg s = Some r \<longrightarrow> \<not> ok (js_trim r)) \<Longrightarrow>
   try_selectors pg ok sels = Some (js_trim raw)"
proof (induction pre arbitrary: sels)
  case Nil
  then show ?case by simp
next
  case (Cons s pre)
  then have "try_selectors pg ok (pre @ sel # post) = Some (js_trim raw)"
    by simp
  with Cons.prems show ?case
    by (cases "first_text pg s") auto
qed

lemma try_selectors_none:
  "(\<forall>s\<in>set sels. \<forall>r. first_text pg s = Some r \<longrightarrow> \<not> ok (js_trim r)) \<Longrightarrow>
   try_selectors pg ok sels = None"
  by (induction sels) (auto split: option.splits)

text \<open>
  C7 (as amended). The claim gives the structured-data block precedence over the loose
  selectors. Both address extractors run the selector loop first: when some selector of
  the list has a first element whose trimmed text is longer than 10 characters, the
  first such selector in list order gives the address, whatever the structured-data
  block holds; the block is read only when no selector does.
\<close>

theorem C7_loose_text_before_structured_data:
  "(scraper_address_selectors = pre @ sel # post \<and> first_text pg sel = Some raw
      \<and> 10 < length (js_trim raw)
      \<and> (\<forall>s\<in>set pre. \<forall>r. first_text pg s = Some r \<longrightarrow> length (js_trim r) \<le> 10)
    \<longrightarrow> extractAddress h pg = JStr (js_trim raw))
   \<and> ((\<forall>s\<in>set scraper_address_selectors. \<forall>r. first_text pg s = Some r \<longrightarrow> length (js_trim r) \<le> 10)
    \<longrightarrow> extractAddress h pg = scraper_ld_address h pg)
   \<and> (extractor_address_selectors = pre' @ sel' # post' \<and> first_text pg sel' = Some raw'
      \<and> 10 < length (js_trim raw')
      \<and> (\<forall>s\<in>set pre'. \<forall>r. first_text pg s = Some r \<longrightarrow> length (js_trim r) \<le> 10)
    \<longrightarrow> findAddressText h pg = JStr (js_trim raw'))
   \<and> ((\<forall>s\<in>set extractor_address_selectors. \<forall>r. first_text pg s = Some r \<longrightarrow> length (js_trim r) \<le> 10)
    \<longrightarrow> findAddressText h pg = extractor_ld_address h pg)"
proof (intro conjI impI; (elim conjE)?)
  let ?ok = "\<lambda>t. t \<noteq> [] \<and> 10 < length t"
  {
    assume a: "scraper_address_selectors = pre @ sel # post" "first_text pg sel = Some raw"
      "10 < length (js_trim raw)"
      "\<forall>s\<in>set pre. \<forall>r. first_text pg s = Some r \<longrightarrow> length (js_trim r) \<le> 10"
    have "try_selectors pg ?ok scraper_address_selectors = Some (js_trim raw)"
      using a by (intro try_selectors_first [where pre = pre and sel = sel and post = post]) auto
    then show "extractAddress h pg = JStr (js_trim raw)"
      by (simp add: extractAddress_def)
  }
  {
    assume "\<forall>s\<in>set scraper_address_selectors. \<forall>r. first_text pg s = Some r \<longrightarrow> length (js_trim r) \<le> 10"
    then have "try_selectors pg ?ok scraper_address_selectors = None"
      by (intro try_selectors_none) auto
    then show "extractAddress h pg = scraper_ld_address h pg"
      by (simp add: extractAddress_def)
  }
  {
    assume a: "extractor_address_selectors = pre' @ sel' # post'" "first_text pg sel' = Some raw'"
      "10 < length (js_trim raw')"
      "\<forall>s\<in>set pre'. \<forall>r. first_text pg s = Some r \<longrightarrow> length (js_trim r) \<le> 10"
    have "try_selectors pg ?ok extractor_address_selectors = Some (js_trim raw')"
      using a by (intro try_selectors_first [where pre = pre' and sel = sel' and post = post']) auto
    then show "findAddressText h pg = JStr (js_trim raw')"
      by (simp add: findAddressText_def)
  }
  {
    assume "\<forall>s\<in>set extractor_address_selectors. \<forall>r. first_text pg s = Some r \<longrightarrow> length (js_trim r) \<le> 10"
    then have "try_selectors pg ?ok extractor_address_selectors = None"
      by (intro try_selectors_none) auto
    then show "findAddressText h pg = extractor_ld_address h pg"
      by (simp add: findAddressText_def)
  }
qed

theorem C7_loose_text_before_structured_data_witness:
  "scraper_address_selectors
     = [''[itemtype*='' @ dq @ ''PostalAddress'' @ dq @ '']''] @ ''.address'' # drop 2 scraper_address_selectors
   \<and> first_text demo_page ''.address'' = Some '' 12 MG Road, Camp, Pune 411001 ''
   \<and> extractAddress demo_host demo_page = JStr ''12 MG Road, Camp, Pune 411001''
   \<and> extractor_address_selectors = [] @ ''.address'' # drop 1 extractor_address_selectors
   \<and> findAddressText demo_host demo_page = JStr ''12 MG Road, Camp, Pune 411001''
   \<and> extractAddress demo_host bare_page = JStr ''1 Hotel Lane, Mumbai''
   \<and> findAddressText demo_host bare_page = JStr ''1 Hotel Lane, Mumbai''"
proof -
  let ?pre = "[''[itemtype*='' @ dq @ ''PostalAddress'' @ dq @ '']'']"
  let ?raw = "'' 12 MG Road, Camp, Pune 411001 ''"
  have s1: "scraper_address_selectors = ?pre @ ''.address'' # drop 2 scraper_address_selectors"
    by code_simp
  have s2: "extractor_address_selectors = [] @ ''.address'' # drop 1 extractor_address_selectors"
    by code_simp
  have t: "first_text demo_page ''.address'' = Some ?raw"
    by code_simp
  have l: "10 < length (js_trim ?raw)" "js_trim ?raw = ''12 MG Road, Camp, Pune 411001''"
    by code_simp+
  have p1: "\<forall>s\<in>set ?pre. \<forall>r. first_text demo_page s = Some r \<longrightarrow> length (js_trim r) \<le> 10"
    by (simp add: demo_page_def dq_def)
  have p2: "\<forall>s\<in>set []. \<forall>r. first_text demo_page s = Some r \<longrightarrow> length (js_trim r) \<le> 10"
    by simp
  have b1: "\<forall>s\<in>set scraper_address_selectors. \<forall>r. first_text bare_page s = Some r \<longrightarrow> length (js_trim r) \<le> 10"
    by (simp add: bare_page_def)
  have b2: "\<forall>s\<in>set extractor_address_selectors. \<forall>r. first_text bare_page s = Some r \<longrightarrow> length (js_trim r) \<le> 10"
    by (simp add: bare_page_def)
  have ld: "scraper_ld_address demo_host bare_page = JStr ''1 Hotel Lane, Mumbai''"
    "extractor_ld_address demo_host bare_page = JStr ''1 Hotel Lane, Mumbai''"
    by code_simp+
  note d = C7_loose_text_before_structured_data
    [of ?pre "''.address''" "drop 2 scraper_address_selectors" demo_page ?raw demo_host
        "[]" "''.address''" "drop 1 extractor_address_selectors" ?raw]
  note b = C7_loose_text_before_structured_data
    [of ?pre "''.address''" "drop 2 scraper_address_selectors" bare_page ?raw demo_host
        "[]" "''.address''" "drop 1 extractor_address_selectors" ?raw]
  from d s1 t l(1) p1 have e1: "extractAddress demo_host demo_page = JStr (js_trim ?raw)"
    by blast
  from d s2 t l(1) p2 have e2: "findAddressText demo_host demo_page = JStr (js_trim ?raw)"
    by blast
  from b b1 have e3: "extractAddress demo_host bare_page = scraper_ld_address demo_host bare_page"
    by blast
  from b b2 have e4: "findAddressText demo_host bare_page = extractor_ld_address demo_host bare_page"
    by blast
  from s1 s2 t e1 e2 e3 e4 l(2) ld show ?thesis
    by simp
qed

text \<open>
  The claim as stated fails on \<open>demo_page\<close>, which has a parseable structured-data
  address and an element of class \<open>address\<close>: both extractors return the text of the
  element.
\<close>

theorem C7_structured_data_not_preferred:
  "scraper_ld_address demo_host demo_page = JStr ''1 Hotel Lane, Mumbai''
   \<and> first_text demo_page ''.address'' = Some '' 12 MG Road, Camp, Pune 411001 ''
   \<and> extractAddress demo_host demo_page = JStr ''12 MG Road, Camp, Pune 411001''
   \<and> extractor_ld_address demo_host demo_page = JStr ''1 Hotel Lane, Mumbai''
   \<and> findAddressText demo_host demo_page = JStr ''12 MG Road, Camp, Pune 411001''"
  by code_simp

section \<open>Frame properties of the pipeline steps\<close>

lemma map_of_obj_set: "map_of (obj_set k v kvs) k' = (if k' = k then Some v else map_of kvs k')"
  by (induction kvs) auto

declare map_of_obj_set [simp]

lemma js_get_obj_set:
  "js_get (JObj (obj_set k v kvs)) k' = (if k' = k then v else js_get (JObj kvs) k')"
  by simp

lemma obj_assign_Nil [simp]: "obj_assign base [] = base"
  by (simp add: obj_assign_def)

lemma obj_assign_Cons [simp]: "obj_assign base (kv # kvs) = obj_assign (obj_set (fst kv) (snd kv) base) kvs"
  by (simp add: obj_assign_def)

lemma fst_agent_call: "fst (agent_call e uid busy (\<lambda>w1. (outcome, w1)) w) = outcome"
  by (simp add: agent_call_def Let_def split: prod.splits sum.splits)

lemma updateAgentStatus_frame [simp]:
  "processingQueue (updateAgentStatus e uid st w) = processingQueue w"
  "restaurants (updateAgentStatus e uid st w) = restaurants w"
  "registry (updateAgentStatus e uid st w) = registry w"
  by (simp_all add: updateAgentStatus_def updateActiveAgentsCount_def new_Date_def Let_def
      split: option.splits)

lemma update_agent_frame [simp]:
  "processingQueue (update_agent uid f w) = processingQueue w"
  "restaurants (update_agent uid f w) = restaurants w"
  by (simp_all add: update_agent_def)

lemma updateStatus_frame [simp]:
  "processingQueue (updateStatus e uid st w) = processingQueue w"
  "restaurants (updateStatus e uid st w) = restaurants w"
  by (simp_all add: updateStatus_def)

lemma agent_call_frame:
  assumes "\<And>w1. processingQueue (snd (call w1)) = processingQueue w1"
    and "\<And>w1. restaurants (snd (call w1)) = restaurants w1"
  shows "processingQueue (snd (agent_call e uid busy call w)) = processingQueue w"
    and "restaurants (snd (agent_call e uid busy call w)) = restaurants w"
proof -
  let ?w2 = "updateStatus e uid busy (snd (new_Date e w))"
  obtain outcome w3 where c: "call ?w2 = (outcome, w3)"
    by (cases "call ?w2")
  from assms [of ?w2] c
  have "processingQueue w3 = processingQueue w" "restaurants w3 = restaurants w"
    by (simp_all add: new_Date_def)
  with c show "processingQueue (snd (agent_call e uid busy call w)) = processingQueue w"
    and "restaurants (snd (agent_call e uid busy call w)) = restaurants w"
    by (simp_all add: agent_call_def new_Date_def Let_def split: prod.splits sum.splits)
qed

lemma gemini_failed_frame [simp]:
  "processingQueue (snd (gemini_failed e what t0 msg w)) = processingQueue w"
  "restaurants (snd (gemini_failed e what t0 msg w)) = restaurants w"
  by (simp_all add: gemini_failed_def new_Date_def Let_def)

lemma gemini_request_frame [simp]:
  "processingQueue (snd (gemini_request e what fallback outcome w)) = processingQueue w"
  "restaurants (snd (gemini_request e what fallback outcome w)) = restaurants w"
  by (simp_all add: gemini_request_def new_Date_def Let_def split: sum.splits option.splits)

lemma gemini_dispatch_frame [simp]:
  "processingQueue (snd (gemini_dispatch e data w)) = processingQueue w"
  "restaurants (snd (gemini_dispatch e data w)) = restaurants w"
  by (simp_all add: gemini_dispatch_def synthesizeRestaurantData_def classifyCuisine_def
      validateAddress_def split: sum.splits)

lemma GeminiLLMAgent_process_frame [simp]:
  "processingQueue (snd (GeminiLLMAgent_process e uid data w)) = processingQueue w"
  "restaurants (snd (GeminiLLMAgent_process e uid data w)) = restaurants w"
  by (simp_all add: GeminiLLMAgent_process_def agent_call_frame)

lemma then_run_returns_frame:
  assumes "then_run m (\<lambda>x. returns (g x)) w = (res, w')"
  shows "w' = snd (m w)"
  using assms by (auto simp: then_run_def returns_def split: prod.splits sum.splits)

lemma classify_cuisine_frame:
  assumes "classify_cuisine e sd ed w = (res, w')"
  shows "processingQueue w' = processingQueue w \<and> restaurants w' = restaurants w"
  using assms
  by (auto simp: classify_cuisine_def Let_def
      dest!: then_run_returns_frame split: if_splits list.splits)

lemma validate_address_frame:
  assumes "validate_address e vr fd w = (res, w')"
  shows "processingQueue w' = processingQueue w \<and> restaurants w' = restaurants w"
  using assms
  by (auto simp: validate_address_def Let_def
      dest!: then_run_returns_frame split: if_splits list.splits)

lemma classify_cuisine_nonempty:
  assumes "js_get (JObj ed) ''cuisineTypes'' = JArr xs" "xs \<noteq> []"
  shows "classify_cuisine e sd ed w = (Inr ed, w)"
  using assms by (simp add: classify_cuisine_def Let_def)

lemma validate_address_cuisineTypes:
  assumes "validate_address e vr fd w = (Inr fd', w')"
  shows "js_get (JObj fd') ''cuisineTypes'' = js_get (JObj fd) ''cuisineTypes''"
  using assms
  by (auto simp: validate_address_def Let_def then_run_def returns_def
      split: if_splits list.splits prod.splits sum.splits)

lemma llm_processing_frame:
  assumes "llm_processing e qid sd ed vr w = (res, w')"
  shows "restaurants w' = restaurants w"
proof (cases "\<not> isValid vr \<or> completeness vr < 80")
  case False
  with assms show ?thesis
    by (simp add: llm_processing_def returns_def)
next
  case True
  show ?thesis
  proof (cases "fmlookup (processingQueue w) qid")
    case None
    with True assms show ?thesis
      by (auto simp: llm_processing_def then_run_def updateQueueItem_def)
  next
    case (Some item)
    let ?w1 = "w\<lparr>processingQueue := fmupd qid (obj_set ''status'' (JStr ''llm_processing'') item) (processingQueue w)\<rparr>"
    obtain r1 w2 where c: "classify_cuisine e sd ed ?w1 = (r1, w2)"
      by (cases "classify_cuisine e sd ed ?w1")
    note f1 = classify_cuisine_frame [OF c]
    show ?thesis
    proof (cases r1)
      case (Inl err)
      with True Some assms c f1 show ?thesis
        by (auto simp: llm_processing_def then_run_def updateQueueItem_def Let_def)
    next
      case (Inr fd)
      with True Some assms c have "validate_address e vr fd w2 = (res, w')"
        by (auto simp: llm_processing_def then_run_def updateQueueItem_def Let_def)
      from validate_address_frame [OF this] f1 show ?thesis
        by simp
    qed
  qed
qed

lemma llm_processing_cuisineTypes:
  assumes "llm_processing e qid sd ed vr w = (Inr fd, w')"
    and "js_get (JObj ed) ''cuisineTypes'' = JArr xs" "xs \<noteq> []"
  shows "js_get (JObj fd) ''cuisineTypes'' = JArr xs"
proof (cases "\<not> isValid vr \<or> completeness vr < 80")
  case False
  with assms show ?thesis
    by (simp add: llm_processing_def returns_def)
next
  case True
  from True assms(1) obtain u w1 where u: "updateQueueItem qid [(''status'', JStr ''llm_processing'')] w = (Inr u, w1)"
    and r: "then_run (classify_cuisine e sd ed) (validate_address e vr) w1 = (Inr fd, w')"
    by (auto simp: llm_processing_def then_run_def split: prod.splits sum.splits)
  from r classify_cuisine_nonempty [OF assms(2,3)]
  have "validate_address e vr ed w1 = (Inr fd, w')"
    by (simp add: then_run_def)
  from validate_address_cuisineTypes [OF this] assms(2) show ?thesis
    by simp
qed

section \<open>The validator stage is a function of the record\<close>

text \<open>
  C4. \<open>validateRestaurantData\<close> reads its argument and the schema library, nothing
  else (no clock, no identifier, no stored state), so it is a function of the record.
  Run through the validator's agent handle, whose state and clock readings change with
  every run, it returns the same result whatever the state, the clock and the
  identifiers are, and the same result when run a second time on the state the first
  run left.
\<close>

theorem C4_validator_result_depends_on_record_only:
  "lib e' = lib e \<longrightarrow>
     fst (SchemaValidatorAgent_process e uid data w) = validateRestaurantData (lib e) data
     \<and> fst (SchemaValidatorAgent_process e uid data w)
         = fst (SchemaValidatorAgent_process e' uid' data w')
     \<and> fst (SchemaValidatorAgent_process e uid data
               (snd (SchemaValidatorAgent_process e uid data w)))
         = fst (SchemaValidatorAgent_process e uid data w)"
  by (simp add: SchemaValidatorAgent_process_def fst_agent_call)

theorem C4_validator_result_depends_on_record_only_witness:
  "totalProcessed (metrics (registry (snd (SchemaValidatorAgent_process demo_env ''uuid-3''
       (JObj spice_route) demo_world)) ! 2)) = 1
   \<and> totalProcessed (metrics (registry demo_world ! 2)) = 0
   \<and> fst (SchemaValidatorAgent_process demo_env ''uuid-3'' (JObj spice_route)
            (snd (SchemaValidatorAgent_process demo_env ''uuid-3'' (JObj spice_route) demo_world)))
        = fst (SchemaValidatorAgent_process demo_env ''uuid-3'' (JObj spice_route) demo_world)
   \<and> fst (SchemaValidatorAgent_process demo_env ''uuid-3'' (JObj spice_route) demo_world)
        = validateRestaurantData demo_host (JObj spice_route)"
proof -
  have m: "totalProcessed (metrics (registry (snd (SchemaValidatorAgent_process demo_env ''uuid-3''
       (JObj spice_route) demo_world)) ! 2)) = 1"
    "totalProcessed (metrics (registry demo_world ! 2)) = 0"
    by code_simp+
  have l: "lib demo_env = demo_host"
    by (simp add: demo_env_def)
  from C4_validator_result_depends_on_record_only
         [of demo_env demo_env "''uuid-3''" "JObj spice_route" demo_world "''uuid-3''" demo_world]
       m l
  show ?thesis
    by simp
qed

section \<open>Cuisine types at persistence\<close>

lemma extractCuisineTypes_nonempty: "extractCuisineTypes pg nm \<noteq> []"
  by (auto simp: extractCuisineTypes_def Let_def)

lemma js_get_extracted_cuisineTypes:
  "js_get (JObj (fst (extractRestaurantData e body url w))) ''cuisineTypes''
     = JArr (map JStr (extractCuisineTypes (cheerio_load e body) (extractName (cheerio_load e body))))"
  by (simp add: extractRestaurantData_def Let_def new_Date_def)

lemma extractRestaurantData_frame [simp]:
  "restaurants (snd (extractRestaurantData e body url w)) = restaurants w"
  by (simp add: extractRestaurantData_def Let_def new_Date_def)

lemma updateQueueItem_frame:
  "updateQueueItem qid item w = (res, w') \<Longrightarrow> restaurants w' = restaurants w"
  by (auto simp: updateQueueItem_def Let_def split: option.splits)

lemma then_run_InrE:
  assumes "then_run m f w = (Inr y, w')"
  obtains x w1 where "m w = (Inr x, w1)" "f x w1 = (Inr y, w')"
  using assms by (auto simp: then_run_def split: prod.splits sum.splits)

lemma lift_run_eq: "lift_run f w = (Inr x, w1) \<longleftrightarrow> f w = (x, w1)"
  by (auto simp: lift_run_def split: prod.splits)

lemma process_try_restaurants:
  assumes "process_try e url queueItem w = (Inr u, w')"
  shows "\<exists>rid r cs. restaurants w' = fmupd rid r (restaurants w)
           \<and> js_get (JObj r) ''cuisineTypes'' = JArr (map JStr cs) \<and> cs \<noteq> []"
proof -
  let ?qid = "to_string (lib e) (js_get (JObj queueItem) ''id'')"
  from assms [unfolded process_try_def Let_def]
  obtain startedAt wa u1 wb u2 wc scrapedData wd u3 we extractedData wf u4 wg
    validationResult wh finalData wi restaurant wj completedAt wk u5 wl now wm logged wn
    where s1: "lift_run (new_Date e) w = (Inr startedAt, wa)"
      and s2: "updateQueueItem ?qid [(''status'', JStr ''scraping''), (''startedAt'', JNum (of_int startedAt))] wa = (Inr u1, wb)"
      and s3: "(if length (getAgentsByType ''web-scraper'' wb) = 0
                        then (Inl (Error ''No web scraper agents available''), wb)
                        else (Inr (), wb)) = (Inr u2, wc)"
      and s4: "(scrapeRestaurant e url, wc) = (Inr scrapedData, wd)"
      and s5: "updateQueueItem ?qid [(''restaurantName'', JStr (title scrapedData)),
                      (''status'', JStr ''extracting'')] wd = (Inr u3, we)"
      and s6: "lift_run (extractRestaurantData e (rawContent scrapedData) url) we = (Inr extractedData, wf)"
      and s7: "updateQueueItem ?qid [(''status'', JStr ''validating'')] wf = (Inr u4, wg)"
      and s8: "(validateRestaurantData (lib e) (JObj extractedData), wg) = (Inr validationResult, wh)"
      and s9: "llm_processing e ?qid scrapedData extractedData validationResult wh = (Inr finalData, wi)"
      and s10: "lift_run (createRestaurant e (restaurant_to_save finalData validationResult url)) wi = (Inr restaurant, wj)"
      and s11: "lift_run (new_Date e) wj = (Inr completedAt, wk)"
      and s12: "updateQueueItem ?qid [(''status'', JStr ''completed''),
                      (''completedAt'', JNum (of_int completedAt))] wk = (Inr u5, wl)"
      and s13: "lift_run (new_Date e) wl = (Inr now, wm)"
      and s14: "lift_run (createExtractionLog e
                     (extraction_log restaurant queueItem validationResult url now)) wm = (Inr logged, wn)"
      and s15: "returns () wn = (Inr u, w')"
    by (elim then_run_InrE) (rule that, assumption+)
  have r_a: "restaurants wa = restaurants w"
    using s1 by (auto simp: lift_run_eq new_Date_def)
  have r_b: "restaurants wb = restaurants wa"
    using s2 by (rule updateQueueItem_frame)
  have r_c: "restaurants wc = restaurants wb"
    using s3 by (auto split: if_splits)
  have r_d: "restaurants wd = restaurants wc"
    using s4 by simp
  have r_e: "restaurants we = restaurants wd"
    using s5 by (rule updateQueueItem_frame)
  have r_f: "restaurants wf = restaurants we"
    using s6 extractRestaurantData_frame [of e "rawContent scrapedData" url we]
    by (simp add: lift_run_eq)
  have ed: "extractedData = fst (extractRestaurantData e (rawContent scrapedData) url we)"
    using s6 by (auto simp: lift_run_eq)
  have r_g: "restaurants wg = restaurants wf"
    using s7 by (rule updateQueueItem_frame)
  have r_h: "restaurants wh = restaurants wg"
    using s8 by simp
  have r_i: "restaurants wi = restaurants wh"
    using s9 by (rule llm_processing_frame)
  let ?cs = "extractCuisineTypes (cheerio_load e (rawContent scrapedData))
               (extractName (cheerio_load e (rawContent scrapedData)))"
  have c_ed: "js_get (JObj extractedData) ''cuisineTypes'' = JArr (map JStr ?cs)"
    unfolding ed by (rule js_get_extracted_cuisineTypes)
  have ne: "map JStr ?cs \<noteq> []"
    by (simp add: extractCuisineTypes_nonempty)
  have c_fd: "js_get (JObj finalData) ''cuisineTypes'' = JArr (map JStr ?cs)"
    using llm_processing_cuisineTypes [OF s9 c_ed ne] .
  have cr: "createRestaurant e (restaurant_to_save finalData validationResult url) wi = (restaurant, wj)"
    using s10 by (simp add: lift_run_eq)
  have r_j: "restaurants wj = fmupd (randomUUID e (uuid_calls wi)) restaurant (restaurants wi)"
    using restaurants_createRestaurant [of e "restaurant_to_save finalData validationResult url" wi] cr
    by simp
  have c_save: "js_get (JObj (restaurant_to_save finalData validationResult url)) ''cuisineTypes''
      = JArr (map JStr ?cs)"
    using c_fd by (simp add: restaurant_to_save_def js_or_def)
  have c_r: "js_get (JObj restaurant) ''cuisineTypes'' = JArr (map JStr ?cs)"
    using cr c_save
    by (auto simp: createRestaurant_def next_uuid_def new_Date_def Let_def js_or_def
        js_get_obj_set simp del: js_get.simps)
  have r_k: "restaurants wk = restaurants wj"
    using s11 by (auto simp: lift_run_eq new_Date_def)
  have r_l: "restaurants wl = restaurants wk"
    using s12 by (rule updateQueueItem_frame)
  have r_m: "restaurants wm = restaurants wl"
    using s13 by (auto simp: lift_run_eq new_Date_def)
  have r_n: "restaurants wn = restaurants wm"
    using s14 by (auto simp: lift_run_eq createExtractionLog_def next_uuid_def new_Date_def Let_def)
  have "w' = wn"
    using s15 by (simp add: returns_def)
  with r_a r_b r_c r_d r_e r_f r_g r_h r_i r_j r_k r_l r_m r_n
  have "restaurants w' = fmupd (randomUUID e (uuid_calls wi)) restaurant (restaurants w)"
    by simp
  with c_r extractCuisineTypes_nonempty show ?thesis
    by blast
qed

lemma processRestaurantUrl_restaurants:
  assumes "processRestaurantUrl e url w = (Inr u, w')"
  shows "\<exists>rid r cs. restaurants w' = fmupd rid r (restaurants w)
           \<and> js_get (JObj r) ''cuisineTypes'' = JArr (map JStr cs) \<and> cs \<noteq> []"
proof -
  obtain queueItem w1 where q: "addToQueue e
            [(''restaurantName'', JStr ''Processing...''), (''sourceUrl'', JStr url),
             (''location'', JStr ''Unknown''), (''status'', JStr ''queued'')] w = (queueItem, w1)"
    by (cases "addToQueue e
            [(''restaurantName'', JStr ''Processing...''), (''sourceUrl'', JStr url),
             (''location'', JStr ''Unknown''), (''status'', JStr ''queued'')] w")
  then have res: "restaurants w1 = restaurants w"
    by (auto simp: addToQueue_def next_uuid_def new_Date_def Let_def)
  from assms q have "process_try e url queueItem w1 = (Inr u, w')"
    by (auto simp: processRestaurantUrl_def Let_def split: prod.splits sum.splits)
  from process_try_restaurants [OF this] res show ?thesis
    by simp
qed

text \<open>
  C6. The field extractor never returns an empty list of cuisine types, and returns the
  single tag \<open>Indian\<close> when no keyword matches. At the persistence step the
  orchestrator puts the default \<open>[Indian]\<close> in place of cuisine types that are
  missing (\<open>undefined\<close> or \<open>null\<close>). Every run of \<open>processRestaurantUrl\<close> that
  completes, whatever the page, the libraries and the reasoning service answer, has
  stored exactly one new restaurant, and its cuisine types are a non-empty list.
\<close>

theorem C6_persisted_cuisineTypes_nonempty:
  "extractCuisineTypes pg nm \<noteq> []
   \<and> (\<not> list_ex (\<lambda>ck. list_ex (js_includes (toLowerCase (all_text pg ''body'' @ '' '' @ nm))) (snd ck))
           cuisineKeywords
      \<longrightarrow> extractCuisineTypes pg nm = [''Indian''])
   \<and> (nullish (js_get (JObj finalData) ''cuisineTypes'')
      \<longrightarrow> js_get (JObj (restaurant_to_save finalData vr url)) ''cuisineTypes'' = JArr [JStr ''Indian''])
   \<and> (processRestaurantUrl e url w = (Inr u, w')
      \<longrightarrow> (\<exists>rid r cs. restaurants w' = fmupd rid r (restaurants w)
             \<and> js_get (JObj r) ''cuisineTypes'' = JArr (map JStr cs) \<and> cs \<noteq> []))"
proof (intro conjI impI)
  show "extractCuisineTypes pg nm \<noteq> []"
    by (rule extractCuisineTypes_nonempty)
next
  assume "\<not> list_ex (\<lambda>ck. list_ex (js_includes (toLowerCase (all_text pg ''body'' @ '' '' @ nm))) (snd ck))
           cuisineKeywords"
  then have "filter (\<lambda>ck. list_ex (js_includes (toLowerCase (all_text pg ''body'' @ '' '' @ nm))) (snd ck))
           cuisineKeywords = []"
    by (simp add: list_ex_iff filter_empty_conv)
  then show "extractCuisineTypes pg nm = [''Indian'']"
    by (simp add: extractCuisineTypes_def Let_def)
next
  assume "nullish (js_get (JObj finalData) ''cuisineTypes'')"
  then have "\<not> truthy (js_get (JObj finalData) ''cuisineTypes'')"
    by (cases "js_get (JObj finalData) ''cuisineTypes''") simp_all
  then show "js_get (JObj (restaurant_to_save finalData vr url)) ''cuisineTypes'' = JArr [JStr ''Indian'']"
    by (simp add: restaurant_to_save_def js_or_def)
next
  assume "processRestaurantUrl e url w = (Inr u, w')"
  then show "\<exists>rid r cs. restaurants w' = fmupd rid r (restaurants w)
             \<and> js_get (JObj r) ''cuisineTypes'' = JArr (map JStr cs) \<and> cs \<noteq> []"
    by (rule processRestaurantUrl_restaurants)
qed

theorem C6_persisted_cuisineTypes_nonempty_witness:
  "extractCuisineTypes plain_page ''Cafe'' = [''Indian'']
   \<and> js_get (JObj (restaurant_to_save (record_without [''cuisineTypes''] spice_route)
                     initial_result ''https://spice.example'')) ''cuisineTypes''
       = JArr [JStr ''Indian'']
   \<and> fst (processRestaurantUrl demo_env ''https://spice.example'' demo_world) = Inr ()
   \<and> (\<exists>rid r cs. restaurants (snd (processRestaurantUrl demo_env ''https://spice.example'' demo_world))
                     = fmupd rid r (restaurants demo_world)
             \<and> js_get (JObj r) ''cuisineTypes'' = JArr (map JStr cs) \<and> cs \<noteq> [])"
proof -
  let ?run = "processRestaurantUrl demo_env ''https://spice.example'' demo_world"
  have k: "\<not> list_ex (\<lambda>ck. list_ex (js_includes (toLowerCase (all_text plain_page ''body'' @ '' '' @ ''Cafe'')))
                          (snd ck)) cuisineKeywords"
    by code_simp
  have n: "nullish (js_get (JObj (record_without [''cuisineTypes''] spice_route)) ''cuisineTypes'')"
    by code_simp
  have r: "fst ?run = Inr ()"
    by code_simp
  then have r': "?run = (Inr (), snd ?run)"
    by (cases ?run) simp
  note c = C6_persisted_cuisineTypes_nonempty
    [of plain_page "''Cafe''" "record_without [''cuisineTypes''] spice_route" initial_result
        "''https://spice.example''" demo_env demo_world "()" "snd ?run"]
  from c k have 1: "extractCuisineTypes plain_page ''Cafe'' = [''Indian'']"
    by blast
  from c n have 2: "js_get (JObj (restaurant_to_save (record_without [''cuisineTypes''] spice_route)
                     initial_result ''https://spice.example'')) ''cuisineTypes''
       = JArr [JStr ''Indian'']"
    by blast
  from c r' have 3: "\<exists>rid r cs. restaurants (snd ?run) = fmupd rid r (restaurants demo_world)
             \<and> js_get (JObj r) ''cuisineTypes'' = JArr (map JStr cs) \<and> cs \<noteq> []"
    by blast
  from 1 2 r 3 show ?thesis
    by blast
qed

section \<open>Fetch failure\<close>

lemma getAgentsByType_registry:
  "registry w' = registry w \<Longrightarrow> getAgentsByType ty w' = getAgentsByType ty w"
  by (simp add: getAgentsByType_def)

lemma process_try_fetch_failure:
  assumes scrape: "scrapeRestaurant e url = Inl err"
    and agents: "getAgentsByType ''web-scraper'' w \<noteq> []"
    and item: "fmlookup (processingQueue w) qid = Some item"
    and qid: "to_string (lib e) (js_get (JObj queueItem) ''id'') = qid"
  shows "process_try e url queueItem w =
           (Inl err,
            w\<lparr>clock_calls := clock_calls w + 1,
               processingQueue := fmupd qid
                 (obj_set ''startedAt'' (JNum (of_int (Date_now e (clock_calls w))))
                    (obj_set ''status'' (JStr ''scraping'') item))
                 (processingQueue w)\<rparr>)"
proof -
  have "getAgentsByType ''web-scraper''
          (w\<lparr>clock_calls := clock_calls w + 1,
               processingQueue := fmupd qid
                 (obj_set ''startedAt'' (JNum (of_int (Date_now e (clock_calls w))))
                    (obj_set ''status'' (JStr ''scraping'') item))
                 (processingQueue w)\<rparr>) \<noteq> []"
    using agents by (simp add: getAgentsByType_def)
  with scrape item qid show ?thesis
    by (simp add: process_try_def Let_def then_run_def lift_run_def new_Date_def
        updateQueueItem_def)
qed

text \<open>
  C8. A failed request makes \<open>scrapeRestaurant\<close> throw an error whose message names
  the URL. Whenever \<open>scrapeRestaurant\<close> throws (a web-scraper agent being
  registered, so that the fetch is attempted), \<open>processRestaurantUrl\<close> throws the same
  error; the queue entry of the work item then has the status \<open>failed\<close>, the time of the
  failure as \<open>completedAt\<close> and the error's message as \<open>errorMessage\<close>; and the stored
  restaurants are those from before the run.
\<close>

theorem C8_fetch_failure:
  "(axios_get e url = Inl (AxiosError m) \<longrightarrow>
      scrapeRestaurant e url = Inl (Error (''Failed to scrape '' @ url @ '': '' @ m)))
   \<and> (scrapeRestaurant e url = Inl err \<and> getAgentsByType ''web-scraper'' w \<noteq> [] \<longrightarrow>
        (\<exists>w' item. processRestaurantUrl e url w = (Inl err, w')
           \<and> restaurants w' = restaurants w
           \<and> fmlookup (processingQueue w') (randomUUID e (uuid_calls w)) = Some item
           \<and> js_get (JObj item) ''sourceUrl'' = JStr url
           \<and> js_get (JObj item) ''status'' = JStr ''failed''
           \<and> js_get (JObj item) ''completedAt'' = JNum (of_int (Date_now e (clock_calls w + 2)))
           \<and> js_get (JObj item) ''errorMessage'' = JStr (error_message err)))"
proof (intro conjI impI)
  assume "axios_get e url = Inl (AxiosError m)"
  then show "scrapeRestaurant e url = Inl (Error (''Failed to scrape '' @ url @ '': '' @ m))"
    by (simp add: scrapeRestaurant_def)
next
  assume a: "scrapeRestaurant e url = Inl err \<and> getAgentsByType ''web-scraper'' w \<noteq> []"
  let ?uid = "randomUUID e (uuid_calls w)"
  obtain queueItem w1 where q: "addToQueue e
            [(''restaurantName'', JStr ''Processing...''), (''sourceUrl'', JStr url),
             (''location'', JStr ''Unknown''), (''status'', JStr ''queued'')] w = (queueItem, w1)"
    by (cases "addToQueue e
            [(''restaurantName'', JStr ''Processing...''), (''sourceUrl'', JStr url),
             (''location'', JStr ''Unknown''), (''status'', JStr ''queued'')] w")
  then have qid: "to_string (lib e) (js_get (JObj queueItem) ''id'') = ?uid"
    and it: "fmlookup (processingQueue w1) ?uid = Some queueItem"
    and reg: "registry w1 = registry w"
    and res: "restaurants w1 = restaurants w"
    and clk: "clock_calls w1 = clock_calls w + 1"
    and src: "js_get (JObj queueItem) ''sourceUrl'' = JStr url"
    by (auto simp: addToQueue_def next_uuid_def new_Date_def Let_def to_string_def)
  have ag: "getAgentsByType ''web-scraper'' w1 \<noteq> []"
    using a reg by (simp add: getAgentsByType_def)
  note t = process_try_fetch_failure [OF conjunct1 [OF a] ag it qid]
  show "\<exists>w' item. processRestaurantUrl e url w = (Inl err, w')
           \<and> restaurants w' = restaurants w
           \<and> fmlookup (processingQueue w') ?uid = Some item
           \<and> js_get (JObj item) ''sourceUrl'' = JStr url
           \<and> js_get (JObj item) ''status'' = JStr ''failed''
           \<and> js_get (JObj item) ''completedAt'' = JNum (of_int (Date_now e (clock_calls w + 2)))
           \<and> js_get (JObj item) ''errorMessage'' = JStr (error_message err)"
    using src res clk
    by (simp add: processRestaurantUrl_def q t qid new_Date_def updateQueueItem_def Let_def
        js_get_obj_set del: js_get.simps)
qed

theorem C8_fetch_failure_witness:
  "axios_get demo_env ''https://unreachable.example'' = Inl (AxiosError ''connect ETIMEDOUT'')
   \<and> getAgentsByType ''web-scraper'' demo_world \<noteq> []
   \<and> (\<exists>w' item.
         processRestaurantUrl demo_env ''https://unreachable.example'' demo_world
           = (Inl (Error ''Failed to scrape https://unreachable.example: connect ETIMEDOUT''), w')
         \<and> restaurants w' = restaurants demo_world
         \<and> fmlookup (processingQueue w') ''uuid-8'' = Some item
         \<and> js_get (JObj item) ''status'' = JStr ''failed''
         \<and> js_get (JObj item) ''completedAt'' = JNum 1700000000017
         \<and> js_get (JObj item) ''errorMessage''
             = JStr ''Failed to scrape https://unreachable.example: connect ETIMEDOUT'')"
proof -
  let ?url = "''https://unreachable.example''"
  let ?err = "Error ''Failed to scrape https://unreachable.example: connect ETIMEDOUT''"
  have a: "axios_get demo_env ?url = Inl (AxiosError ''connect ETIMEDOUT'')"
    by code_simp
  have g: "getAgentsByType ''web-scraper'' demo_world \<noteq> []"
    by code_simp
  have u: "randomUUID demo_env (uuid_calls demo_world) = ''uuid-8''"
    by code_simp
  have d: "Date_now demo_env (clock_calls demo_world + 2) = 1700000000017"
    by code_simp
  have m: "''Failed to scrape '' @ ?url @ '': '' @ ''connect ETIMEDOUT''
             = ''Failed to scrape https://unreachable.example: connect ETIMEDOUT''"
    by simp
  note c = C8_fetch_failure [of demo_env ?url "''connect ETIMEDOUT''" ?err demo_world]
  from c a m have s: "scrapeRestaurant demo_env ?url = Inl ?err"
    by simp
  with c g obtain w' item where
    "processRestaurantUrl demo_env ?url demo_world = (Inl ?err, w')"
    "restaurants w' = restaurants demo_world"
    "fmlookup (processingQueue w') (randomUUID demo_env (uuid_calls demo_world)) = Some item"
    "js_get (JObj item) ''status'' = JStr ''failed''"
    "js_get (JObj item) ''completedAt'' = JNum (of_int (Date_now demo_env (clock_calls demo_world + 2)))"
    "js_get (JObj item) ''errorMessage'' = JStr (error_message ?err)"
    by blast
  with a g u d show ?thesis
    by (auto simp: error_message_def)
qed

section \<open>The reasoning stage\<close>










end
